theory Spec2Isabelle
  imports
    Complex_Main
    "HOL-Library.List_Lexorder"
    "HOL-Library.Product_Lexorder"
    "HOL-Library.Multiset"
begin

section \<open>Strings and numbers of the source language\<close>

text \<open>
  A Python \<open>str\<close> is a sequence of Unicode code points: it is modelled as a list of
  natural numbers, so that slicing, length and comparison (lexicographic on code points,
  which is the list order of \<open>HOL-Library.List_Lexorder\<close>) count what Python counts.
  Literals of the source that are not ASCII are written as their code points.

  Python numbers (ratings, coordinates, scores) are modelled as exact rationals, and
  \<open>round(x, n)\<close> as rounding of the exact value to \<open>n\<close> decimals, ties to even.
  Binary floating point is outside this embedding.
\<close>

type_synonym pystr = "nat list"

definition ascii :: "string \<Rightarrow> pystr" where
  "ascii s = map of_char s"

text \<open>\<open>str(n)\<close> for a non-negative integer: its decimal digits.\<close>

fun str_nat :: "nat \<Rightarrow> pystr" where
  "str_nat n = (if n < 10 then [48 + n] else str_nat (n div 10) @ [48 + n mod 10])"

declare str_nat.simps [simp del]

text \<open>The format specification \<open>{n:02d}\<close>: decimal, padded with zeros to width two.\<close>

definition format_02d :: "nat \<Rightarrow> pystr" where
  "format_02d n = replicate (2 - length (str_nat n)) 48 @ str_nat n"

text \<open>\<open>kw in text\<close> on strings: \<open>kw\<close> occurs as a contiguous substring.\<close>

fun str_in :: "pystr \<Rightarrow> pystr \<Rightarrow> bool" where
  "str_in kw [] = (kw = [])"
| "str_in kw (c # cs) = (take (length kw) (c # cs) = kw \<or> str_in kw cs)"

definition startswith :: "pystr \<Rightarrow> pystr \<Rightarrow> bool" where
  "startswith s p = (take (length p) s = p)"

definition endswith :: "pystr \<Rightarrow> pystr \<Rightarrow> bool" where
  "endswith s p = (length p \<le> length s \<and> drop (length s - length p) s = p)"

text \<open>The code points for which \<open>str.isspace\<close> holds; \<open>str.strip()\<close> removes them at both ends.\<close>

definition isspace :: "nat \<Rightarrow> bool" where
  "isspace c = (c \<in> set [9, 10, 11, 12, 13, 28, 29, 30, 31, 32, 133, 160, 5760,
      8192, 8193, 8194, 8195, 8196, 8197, 8198, 8199, 8200, 8201, 8202,
      8232, 8233, 8239, 8287, 12288])"

definition strip :: "pystr \<Rightarrow> pystr" where
  "strip s = rev (dropWhile isspace (rev (dropWhile isspace s)))"

definition round_half_even :: "rat \<Rightarrow> int" where
  "round_half_even y =
     (let f = \<lfloor>y\<rfloor>; d = y - of_int f
      in if d < 1 / 2 then f else if 1 / 2 < d then f + 1 else if even f then f else f + 1)"

definition py_round :: "rat \<Rightarrow> nat \<Rightarrow> rat" where
  "py_round x ndigits = of_int (round_half_even (x * 10 ^ ndigits)) / 10 ^ ndigits"

text \<open>
  \<open>sorted(xs, key=k)\<close> and \<open>list.sort(key=k)\<close> are stable, as \<open>sort_key\<close> is.
  With \<open>reverse=True\<close> Python keeps the original order of elements with equal keys:
  it sorts the reversed list and reverses the result.
\<close>

definition sorted_reverse :: "('a \<Rightarrow> 'k::linorder) \<Rightarrow> 'a list \<Rightarrow> 'a list" where
  "sorted_reverse k xs = rev (sort_key k (rev xs))"

section \<open>Configuration (config.py)\<close>

definition FOOD_MAX_RESULTS :: nat where "FOOD_MAX_RESULTS = 5"
definition ATTRACTION_MAX_RESULTS :: nat where "ATTRACTION_MAX_RESULTS = 5"
definition MARKET_MAX_RESULTS :: nat where "MARKET_MAX_RESULTS = 5"
definition ATTRACTION_IMAGE_COUNT :: nat where "ATTRACTION_IMAGE_COUNT = 3"
definition FOOD_SEARCH_RADIUS :: nat where "FOOD_SEARCH_RADIUS = 500"
definition ATTRACTION_SEARCH_RADIUS :: nat where "ATTRACTION_SEARCH_RADIUS = 5000"
definition MARKET_SEARCH_RADIUS :: nat where "MARKET_SEARCH_RADIUS = 5000"
definition S3_JOB_RESULT_PREFIX :: pystr where "S3_JOB_RESULT_PREFIX = ascii ''rcmnd_job/''"

text \<open>The three categories: "food", "landmarks and attractions", "flea markets or events".\<close>

definition FOOD :: pystr where
  "FOOD = [0x7F8E, 0x98DF]"

definition ATTRACTIONS :: pystr where
  "ATTRACTIONS = [0x540D, 0x80DC, 0x53E4, 0x8FF9, 0x548C, 0x65C5, 0x6E38, 0x666F, 0x70B9]"

definition EVENTS :: pystr where
  "EVENTS = [0x8DF3, 0x86A4, 0x5E02, 0x573A, 0x6216, 0x6D3B, 0x52A8]"

section \<open>The Document Assembler (recommendation_generator.py)\<close>

subsection \<open>Place candidates and markers\<close>

text \<open>
  A processed place is a Python dict; a key that a path of the pipeline may leave out is an
  option (\<open>None\<close>: the key is absent, or holds Python's \<open>None\<close>).
\<close>

record place =
  p_place_id :: pystr
  p_name :: pystr
  p_formatted_address :: pystr
  p_rating :: "rat option"
  p_website :: "pystr option"
  p_summary :: "pystr option"
  p_lat :: "rat option"
  p_lng :: "rat option"
  p_photo_reference :: "pystr option"
  p_s3_image_url :: "pystr option"
  p_s3_image_urls :: "pystr list option"
  p_reviews :: "pystr list option"

datatype block =
    Header pystr nat
  | Image pystr pystr bool
  | Paragraph pystr

record coordinates =
  latitude :: rat
  longitude :: rat

record editor_data =
  ed_time :: int
  ed_blocks :: "block list"
  ed_version :: pystr

record content =
  content_id :: pystr
  title :: pystr
  headerImage :: pystr
  iconType :: pystr
  editorData :: editor_data
  createdAt :: pystr
  updatedAt :: pystr

record marker =
  marker_id :: pystr
  marker_coordinates :: coordinates
  marker_content :: content
  relevanceScore :: rat
  tags :: "pystr list"
  deeplink :: pystr

record result_document =
  requestId :: pystr
  generatedAt :: pystr
  ttlSeconds :: nat
  markers :: "marker list"

text \<open>
  What one run reads from outside its arguments: the hexadecimal text of a fresh
  \<open>uuid.uuid4()\<close>, the formatted UTC time of \<open>datetime.now\<close>, and \<open>time.time()\<close> in
  milliseconds.
\<close>

record ambient =
  uuid4_hex :: pystr
  utc_now :: pystr
  time_ms :: int

subsection \<open>Static lookups\<close>

definition get_icon_type :: "pystr \<Rightarrow> pystr" where
  "get_icon_type main_type =
     (if main_type = FOOD then ascii ''food''
      else if main_type = ATTRACTIONS then ascii ''attraction''
      else if main_type = EVENTS then ascii ''activity''
      else ascii ''poi'')"

definition sub_type_tags :: "(pystr \<times> pystr list) list" where
  "sub_type_tags =
     [([0x5F02, 0x56FD, 0x6599, 0x7406], [ascii ''international'', ascii ''restaurant'']),
      ([0x62C9, 0x9762], [ascii ''ramen'', ascii ''noodles'']),
      ([0x70E4, 0x8089], [ascii ''yakiniku'', ascii ''bbq'']),
      ([0x5BFF, 0x559C, 0x70E7], [ascii ''sukiyaki'', ascii ''hotpot'']),
      ([0x4E2D, 0x534E], [ascii ''chinese'', ascii ''restaurant'']),
      ([0x6D77, 0x9C9C], [ascii ''seafood'', ascii ''restaurant'']),
      ([0x5C45, 0x9152, 0x5C4B], [ascii ''izakaya'', ascii ''bar''])]"

definition get_tags_for_type :: "pystr \<Rightarrow> pystr \<Rightarrow> pystr list" where
  "get_tags_for_type main_type sub_type =
     (if main_type = FOOD then
        [ascii ''food''] @
        (if sub_type \<noteq> [] then
           (case map_of sub_type_tags sub_type of None \<Rightarrow> [] | Some ts \<Rightarrow> ts)
         else [])
      else if main_type = ATTRACTIONS then
        [ascii ''attraction'', ascii ''sightseeing'', ascii ''tourism'']
      else if main_type = EVENTS then
        [ascii ''activity'', ascii ''event'', ascii ''market'']
      else [])"

definition generate_marker_id :: "nat \<Rightarrow> pystr" where
  "generate_marker_id index = ascii ''mk_'' @ format_02d (index + 1)"

definition generate_content_id :: "nat \<Rightarrow> pystr" where
  "generate_content_id index = ascii ''post_'' @ format_02d (index + 1)"

subsection \<open>Relevance score\<close>

text \<open>
  Lines 1149 to 1153: \<open>rating = place.get("rating", 0)\<close>, then
  \<open>round(0.5 + (rating / 10) if rating else 0.5, 2)\<close>, then
  \<open>round(max(0.1, relevance_score - (idx * 0.05)), 2)\<close>. The exact value computed here is the
  source's floating-point value for the ratings of the provider's scale, 0.0 to 5.0 with one
  decimal digit. A rating
  with more digits can make the base score a decimal tie (0.25: 0.525), which the exact
  rounding resolves to the even neighbour and the floating-point rounding by the binary
  approximation of the tie.
\<close>

definition relevance_score :: "rat option \<Rightarrow> nat \<Rightarrow> rat" where
  "relevance_score rating_key idx =
     (let rating = (case rating_key of None \<Rightarrow> 0 | Some r \<Rightarrow> r);
          score = py_round (if rating \<noteq> 0 then 1 / 2 + rating / 10 else 1 / 2) 2
      in py_round (max (1 / 10) (score - of_nat idx * (5 / 100))) 2)"

subsection \<open>One marker per place, in input order\<close>

definition image_urls_of :: "pystr \<Rightarrow> place \<Rightarrow> pystr list" where
  "image_urls_of main_type pl =
     (if main_type = ATTRACTIONS then
        (case p_s3_image_urls pl of None \<Rightarrow> [] | Some us \<Rightarrow> us)
      else if main_type = FOOD then
        (case p_s3_image_url pl of
           None \<Rightarrow> []
         | Some u \<Rightarrow> if u \<noteq> [] then [u] else [])
      else [])"

definition image_blocks :: "pystr \<Rightarrow> pystr \<Rightarrow> pystr list \<Rightarrow> block list" where
  "image_blocks nm address image_urls =
     concat (map (\<lambda>(img_idx, image_url).
        if image_url \<noteq> [] then
          [Image image_url
             (nm @ ascii '' - '' @ address @
                (if length image_urls > 1
                 then [32, 40, 0x56FE] @ str_nat (img_idx + 1) @ ascii '')''
                 else []))
             True]
        else [])
      (enumerate 0 image_urls))"

definition place_blocks :: "pystr \<Rightarrow> place \<Rightarrow> block list" where
  "place_blocks main_type pl =
     (let summary = (case p_summary pl of None \<Rightarrow> [0x6682, 0x65E0, 0x6982, 0x8981] | Some s \<Rightarrow> s);
          website = (case p_website pl of None \<Rightarrow> [] | Some w \<Rightarrow> w)
      in [Header (p_name pl) 2] @
         image_blocks (p_name pl) (p_formatted_address pl) (image_urls_of main_type pl) @
         [Paragraph ([0x3010, 0x6982, 0x8981, 0x3011] @ summary)] @
         (if website \<noteq> [] then
            [Paragraph ([0x4FE1, 0x606F, 0x6765, 0x6E90, 0xFF1A, 91, 0x70B9, 0x51FB, 0x8DF3,
                         0x8F6C, 0x539F, 0x94FE, 0x63A5, 93, 40] @ website @ ascii '')'')]
          else []))"

definition place_to_marker :: "ambient \<Rightarrow> pystr \<Rightarrow> pystr \<Rightarrow> nat \<Rightarrow> place \<Rightarrow> marker" where
  "place_to_marker amb main_type sub_type idx pl =
     (let image_urls = image_urls_of main_type pl;
          header_image = (case image_urls of [] \<Rightarrow> [] | u # _ \<Rightarrow> u);
          mid = generate_marker_id idx
      in \<lparr> marker_id = mid,
           marker_coordinates =
             \<lparr> latitude = (case p_lat pl of None \<Rightarrow> 0 | Some v \<Rightarrow> v),
               longitude = (case p_lng pl of None \<Rightarrow> 0 | Some v \<Rightarrow> v) \<rparr>,
           marker_content =
             \<lparr> content_id = generate_content_id idx,
               title = p_name pl,
               headerImage = header_image,
               iconType = get_icon_type main_type,
               editorData =
                 \<lparr> ed_time = time_ms amb,
                   ed_blocks = place_blocks main_type pl,
                   ed_version = ascii ''2.29.0'' \<rparr>,
               createdAt = utc_now amb,
               updatedAt = utc_now amb \<rparr>,
           relevanceScore = relevance_score (p_rating pl) idx,
           tags = get_tags_for_type main_type sub_type,
           deeplink = ascii ''mapannai://marker/'' @ mid \<rparr>)"

definition format_places_to_markers ::
    "ambient \<Rightarrow> place list \<Rightarrow> pystr \<Rightarrow> pystr \<Rightarrow> result_document" where
  "format_places_to_markers amb processed_places main_type sub_type =
     \<lparr> requestId = ascii ''req_'' @ take 8 (uuid4_hex amb),
       generatedAt = utc_now amb,
       ttlSeconds = 300,
       markers = map (\<lambda>(idx, pl). place_to_marker amb main_type sub_type idx pl)
                     (enumerate 0 processed_places) \<rparr>"

subsection \<open>The relevance score as the specification words it\<close>

text \<open>
  The specification's sentence, read as one formula: base 0.5, plus rating/10 when a non-zero
  rating is present, minus 0.05 times the position index, floored at 0.1, rounded to two
  decimals. The source function above rounds twice; this one follows the sentence.
\<close>

definition spec_relevance_score :: "rat option \<Rightarrow> nat \<Rightarrow> rat" where
  "spec_relevance_score rating_key i =
     py_round (max (1 / 10)
       (1 / 2 + (case rating_key of None \<Rightarrow> 0 | Some r \<Rightarrow> if r \<noteq> 0 then r / 10 else 0)
          - (5 / 100) * of_nat i)) 2"

text \<open>
  The places provider reports ratings with one decimal digit (4.3, 3.0); a candidate from the
  generative search carries the rating 0.
\<close>

definition one_decimal :: "rat \<Rightarrow> bool" where
  "one_decimal r = (of_int \<lfloor>r * 10\<rfloor> = r * 10)"

text \<open>The rating scale the source documents in its comment on line 1150: 0 to 5.\<close>

definition rating_at_most_5 :: "place \<Rightarrow> bool" where
  "rating_at_most_5 pl = (case p_rating pl of None \<Rightarrow> True | Some r \<Rightarrow> r \<le> 5)"

subsection \<open>A document without the fields read from the clock and the random source\<close>

definition without_clock_fields :: "marker \<Rightarrow> marker" where
  "without_clock_fields m =
     m\<lparr> marker_content := (marker_content m)
          \<lparr> editorData := (editorData (marker_content m))\<lparr> ed_time := 0 \<rparr>,
            createdAt := [], updatedAt := [] \<rparr> \<rparr>"

definition without_run_fields :: "result_document \<Rightarrow> result_document" where
  "without_run_fields d =
     d\<lparr> requestId := [], generatedAt := [], markers := map without_clock_fields (markers d) \<rparr>"

section \<open>Place resolution and enrichment (recommendation_generator.py)\<close>

subsection \<open>Exceptions\<close>

text \<open>
  Every \<open>raise\<close> of the source and every exception of a provider call is a value;
  \<open>str_of_exception\<close> is Python's \<open>str(e)\<close>. A \<open>ClientError\<close> carries the error code of the
  storage service's response.
\<close>

datatype py_exception =
    ValueError pystr
  | JSONDecodeError pystr
  | AttributeError pystr
  | RequestException pystr
  | ClientError pystr pystr

fun str_of_exception :: "py_exception \<Rightarrow> pystr" where
  "str_of_exception (ValueError m) = m"
| "str_of_exception (JSONDecodeError m) = m"
| "str_of_exception (AttributeError m) = m"
| "str_of_exception (RequestException m) = m"
| "str_of_exception (ClientError code m) = m"

subsection \<open>Review selection (lines 612 to 635)\<close>

record review =
  rv_text :: "pystr option"
  rv_likes :: "int option"
  rv_thumbs_up :: "int option"
  rv_helpful_votes :: "int option"
  rv_rating :: "rat option"

text \<open>Python's \<open>a or b\<close> on optional numbers: \<open>a\<close> when it is truthy (present and not zero).\<close>

definition or_else :: "int option \<Rightarrow> int option \<Rightarrow> int option" where
  "or_else a b = (case a of None \<Rightarrow> b | Some v \<Rightarrow> if v \<noteq> 0 then Some v else b)"

definition review_likes :: "review \<Rightarrow> int" where
  "review_likes r =
     (case or_else (or_else (rv_likes r) (rv_thumbs_up r)) (rv_helpful_votes r) of
        None \<Rightarrow> 0
      | Some v \<Rightarrow> if v \<noteq> 0 then v else 0)"

definition review_rating :: "review \<Rightarrow> rat" where
  "review_rating r = (case rv_rating r of None \<Rightarrow> 0 | Some v \<Rightarrow> v)"

definition get_review_score :: "review \<Rightarrow> int \<times> rat" where
  "get_review_score r = (review_likes r, review_rating r)"

definition has_text :: "review \<Rightarrow> bool" where
  "has_text r = (case rv_text r of None \<Rightarrow> False | Some t \<Rightarrow> t \<noteq> [])"

definition top_reviews :: "review list \<Rightarrow> review list" where
  "top_reviews reviews =
     (let valid_reviews = filter has_text reviews;
          sorted_reviews = sorted_reverse get_review_score valid_reviews
      in take 5 sorted_reviews)"

definition review_texts :: "review list \<Rightarrow> pystr list" where
  "review_texts reviews =
     map (\<lambda>r. case rv_text r of None \<Rightarrow> [] | Some t \<Rightarrow> t) (top_reviews reviews)"

subsection \<open>Flea-market classification (lines 718 to 734)\<close>

definition flea_market_keywords :: "pystr list" where
  "flea_market_keywords =
     [[0x8DF3, 0x86A4, 0x5E02, 0x573A],
      [0x30D5, 0x30EA, 0x30FC, 0x30DE, 0x30FC, 0x30B1, 0x30C3, 0x30C8],
      [0x30D5, 0x30EA, 0x30DE],
      [0x86A4, 0x306E, 0x5E02],
      [0x53E4, 0x7269, 0x5E02, 0x5834],
      ascii ''flea market'', ascii ''flea'', ascii ''market'',
      [0x53E4, 0x7740],
      [0x4E2D, 0x53E4],
      [0x30EA, 0x30B5, 0x30A4, 0x30AF, 0x30EB]]"

text \<open>
  \<open>str.lower\<close> follows the Unicode case tables of the Python runtime; it is a parameter of
  the classification (\<open>ascii_lower\<close> below is its restriction to ASCII letters).
\<close>

definition is_flea_market :: "(pystr \<Rightarrow> pystr) \<Rightarrow> pystr \<Rightarrow> pystr \<Rightarrow> bool" where
  "is_flea_market lower place_name place_summary =
     (let text_to_check = lower (place_name @ [32] @ place_summary)
      in list_ex (\<lambda>keyword. str_in (lower keyword) text_to_check) flea_market_keywords)"

definition ascii_lower :: "pystr \<Rightarrow> pystr" where
  "ascii_lower s = map (\<lambda>c. if 65 \<le> c \<and> c \<le> 90 then c + 32 else c) s"

subsection \<open>Providers\<close>

text \<open>
  The external collaborators, as the stubs of one run. A provider call returns its parsed
  JSON response or raises (\<open>Inl\<close>); the fields are the ones the source reads, a key that may
  be missing is an option. The \<open>geometry.location\<close> of a place record is \<open>None\<close> when the
  geometry or the location is missing or empty, and otherwise the pair of what the location
  holds under \<open>lat\<close> and under \<open>lng\<close>, each of which may be missing: the source reads them
  with \<open>location.get\<close> and does not check them. A geocoding result is \<open>None\<close> unless its
  location holds both numbers, which is what \<open>geocode_address\<close> checks.
\<close>

record nearby_params =
  np_location :: "rat \<times> rat"
  np_radius :: nat
  np_keyword :: pystr
  np_minprice :: "nat option"
  np_maxprice :: "nat option"
  np_pagetoken :: "pystr option"

record nearby_result =
  nr_place_id :: "pystr option"
  nr_rating :: "rat option"

record nearby_page =
  pg_status :: pystr
  pg_error_message :: "pystr option"
  pg_results :: "nearby_result list"
  pg_next_page_token :: "pystr option"

record details_result =
  d_name :: "pystr option"
  d_rating :: "rat option"
  d_formatted_address :: "pystr option"
  d_website :: "pystr option"
  d_url :: "pystr option"
  d_location :: "(rat option \<times> rat option) option"
  d_photos :: "pystr option list"
  d_reviews :: "review list"

record details_reply =
  dr_status :: pystr
  dr_error_message :: "pystr option"
  dr_result :: details_result

record search_reply =
  sr_status :: pystr
  sr_results :: "pystr option list"

record geocode_reply =
  gc_status :: pystr
  gc_results :: "(rat \<times> rat) option list"

text \<open>One element of the JSON array the generative model returns.\<close>

record gemini_item =
  gi_place_name :: "pystr option"
  gi_name :: "pystr option"
  gi_place_address :: "pystr option"
  gi_address :: "pystr option"
  gi_latitude :: "rat option"
  gi_lat :: "rat option"
  gi_longitude :: "rat option"
  gi_lng :: "rat option"
  gi_summary :: "pystr option"
  gi_website :: "pystr option"

text \<open>The request of the narrative generation: one entry per place.\<close>

record place_data =
  pd_place_id :: pystr
  pd_name :: pystr
  pd_address :: pystr
  pd_rating :: "rat option"
  pd_reviews :: "pystr list option"

text \<open>
  A job's object in durable storage, as \<open>save_result_to_s3\<close> and \<open>save_error_to_s3\<close> write it
  and the status query reads it back (a key the writer leaves out, or a reader may miss, is
  an option).
\<close>

record job_object =
  jo_jobId :: "pystr option"
  jo_status :: "pystr option"
  jo_completedAt :: "pystr option"
  jo_result :: "result_document option"
  jo_error :: "pystr option"

text \<open>
  The world of one execution: the configuration read from the environment, the case table of
  the runtime, the clock in seconds, and the providers. \<open>put_object\<close> is the storage
  service's answer to a write (\<open>None\<close>: written).
\<close>

record world =
  GOOGLE_PLACES_API_KEY :: pystr
  GEMINI_API_KEY :: pystr
  S3_BUCKET_NAME :: pystr
  str_lower :: "pystr \<Rightarrow> pystr"
  unix_time :: nat
  nearby_search :: "nearby_params \<Rightarrow> py_exception + nearby_page"
  place_details :: "pystr \<Rightarrow> pystr \<Rightarrow> py_exception + details_reply"
  text_search :: "pystr \<Rightarrow> rat \<times> rat \<Rightarrow> py_exception + search_reply"
  geocode :: "pystr \<Rightarrow> py_exception + geocode_reply"
  photo_upload :: "pystr \<Rightarrow> pystr \<Rightarrow> pystr option"
  gemini_search_text :: "rat \<Rightarrow> rat \<Rightarrow> pystr \<Rightarrow> py_exception + pystr option"
  json_loads_places :: "pystr \<Rightarrow> py_exception + gemini_item list"
  gemini_summary_text :: "bool \<Rightarrow> place_data list \<Rightarrow> py_exception + pystr"
  json_loads_summaries :: "pystr \<Rightarrow> py_exception + (pystr \<times> pystr) list"
  put_object :: "pystr \<Rightarrow> job_object \<Rightarrow> py_exception option"

definition OK :: pystr where
  "OK = ascii ''OK''"

text \<open>
  \<open>upload_image_to_s3\<close>, lines 98 to 142: the download and the upload are the provider's
  (\<open>photo_upload\<close>: the public URL, or \<open>None\<close> after any exception, which the source catches).
\<close>

definition upload_image_to_s3 :: "world \<Rightarrow> pystr \<Rightarrow> pystr \<Rightarrow> pystr option" where
  "upload_image_to_s3 w photo_reference place_name =
     (if GOOGLE_PLACES_API_KEY w = [] then None
      else if S3_BUCKET_NAME w = [] then None
      else photo_upload w photo_reference place_name)"

text \<open>\<open>geocode_address\<close>, lines 737 to 781: every failure, exceptions included, is \<open>None\<close>.\<close>

definition geocode_address :: "world \<Rightarrow> pystr \<Rightarrow> (rat \<times> rat) option" where
  "geocode_address w address =
     (if GOOGLE_PLACES_API_KEY w = [] then None
      else if address = [] then None
      else case geocode w address of
             Inl e \<Rightarrow> None
           | Inr data \<Rightarrow>
               if gc_status data \<noteq> OK then None
               else case gc_results data of
                      [] \<Rightarrow> None
                    | location # _ \<Rightarrow> location)"

text \<open>\<open>find_place_by_name_and_address\<close>, lines 784 to 824.\<close>

definition find_place_by_name_and_address ::
    "world \<Rightarrow> pystr \<Rightarrow> pystr \<Rightarrow> rat \<Rightarrow> rat \<Rightarrow> pystr option" where
  "find_place_by_name_and_address w nm address lat lng =
     (if GOOGLE_PLACES_API_KEY w = [] then None
      else let query = (if address \<noteq> [] then nm @ [32] @ address else nm)
           in case text_search w query (lat, lng) of
                Inl e \<Rightarrow> None
              | Inr data \<Rightarrow>
                  if sr_status data \<noteq> OK then None
                  else case sr_results data of
                         [] \<Rightarrow> None
                       | place_id # _ \<Rightarrow> place_id)"

subsection \<open>Generative search (lines 218 to 412)\<close>

text \<open>A place as \<open>fetch_places_via_gemini\<close> returns it; the flag is set later, for events.\<close>

record gemini_place =
  gp_name :: pystr
  gp_formatted_address :: pystr
  gp_summary :: pystr
  gp_rating :: rat
  gp_website :: pystr
  gp_lat :: "rat option"
  gp_lng :: "rat option"
  gp_is_flea_market :: "bool option"

definition truthy_str :: "pystr option \<Rightarrow> bool" where
  "truthy_str s = (case s of None \<Rightarrow> False | Some t \<Rightarrow> t \<noteq> [])"

definition get_str :: "pystr option \<Rightarrow> pystr \<Rightarrow> pystr" where
  "get_str s dflt = (case s of None \<Rightarrow> dflt | Some t \<Rightarrow> t)"

definition truthy_num :: "rat option \<Rightarrow> bool" where
  "truthy_num x = (case x of None \<Rightarrow> False | Some v \<Rightarrow> v \<noteq> 0)"

text \<open>
  Lines 346 to 353 (and again 1372 to 1379): the markers of a Markdown code block are
  removed from the stripped response text.
\<close>

definition strip_code_fence :: "pystr \<Rightarrow> pystr" where
  "strip_code_fence response_text =
     (let t1 = (if startswith response_text (ascii ''```json'') then drop 7 response_text
                else response_text);
          t2 = (if startswith t1 (ascii ''```'') then drop 3 t1 else t1);
          t3 = (if endswith t2 (ascii ''```'') then take (length t2 - 3) t2 else t2)
      in strip t3)"

text \<open>
  The loop body of lines 362 to 400: no place without a name. The values of an item are of the
  types the request's response schema declares: a key that is present holds a text (a number
  for a coordinate), never \<open>null\<close>.
\<close>

definition gemini_item_to_place :: "pystr \<Rightarrow> gemini_item \<Rightarrow> gemini_place list" where
  "gemini_item_to_place main_type item =
     (let place_name = (if main_type = EVENTS
                        then (if truthy_str (gi_place_name item)
                              then get_str (gi_place_name item) []
                              else get_str (gi_name item) [])
                        else get_str (gi_name item) []);
          place_address = (if main_type = EVENTS
                           then (if truthy_str (gi_place_address item)
                                 then get_str (gi_place_address item) []
                                 else get_str (gi_address item) [])
                           else get_str (gi_address item) []);
          lat_key = (if main_type = EVENTS
                     then (if truthy_num (gi_latitude item) then gi_latitude item else gi_lat item)
                     else None);
          lng_key = (if main_type = EVENTS
                     then (if truthy_num (gi_longitude item) then gi_longitude item else gi_lng item)
                     else None);
          with_coordinates = (main_type = EVENTS \<and> lat_key \<noteq> None \<and> lng_key \<noteq> None)
      in if place_name = [] then []
         else [\<lparr> gp_name = place_name,
                 gp_formatted_address = place_address,
                 gp_summary = get_str (gi_summary item) [],
                 gp_rating = 0,
                 gp_website = get_str (gi_website item) [],
                 gp_lat = (if with_coordinates then lat_key else None),
                 gp_lng = (if with_coordinates then lng_key else None),
                 gp_is_flea_market = None \<rparr>])"

text \<open>Line 340: \<open>response.text.strip() if response.text else ""\<close>.\<close>

definition response_text_of :: "pystr option \<Rightarrow> pystr" where
  "response_text_of response = (if truthy_str response then strip (get_str response []) else [])"

definition EMPTY_RESPONSE :: py_exception where
  "EMPTY_RESPONSE = ValueError (ascii ''Gemini '' @ [0x8FD4, 0x56DE, 0x7A7A, 0x54CD, 0x5E94])"

definition EMPTY_AFTER_CLEANING :: py_exception where
  "EMPTY_AFTER_CLEANING =
     ValueError [0x6E05, 0x7406, 0x540E, 0x7684, 0x54CD, 0x5E94, 0x4E3A, 0x7A7A]"

definition fetch_places_via_gemini ::
    "world \<Rightarrow> rat \<Rightarrow> rat \<Rightarrow> pystr \<Rightarrow> py_exception + gemini_place list" where
  "fetch_places_via_gemini w lat lng main_type =
     (case gemini_search_text w lat lng main_type of
        Inl e \<Rightarrow> Inl e
      | Inr response \<Rightarrow>
          let response_text = response_text_of response
          in if response_text = [] then Inl EMPTY_RESPONSE
             else let cleaned = strip_code_fence response_text
                  in if cleaned = [] then Inl EMPTY_AFTER_CLEANING
                     else case json_loads_places w cleaned of
                            Inl e \<Rightarrow> Inl e
                          | Inr places \<Rightarrow>
                              Inr (concat (map (gemini_item_to_place main_type) places)))"

subsection \<open>Generative search with enrichment (lines 827 to 1018)\<close>

text \<open>Lines 842 to 851: flag, sort (flea markets first, then by name), truncate.\<close>

definition flag_flea_market :: "(pystr \<Rightarrow> pystr) \<Rightarrow> gemini_place \<Rightarrow> gemini_place" where
  "flag_flea_market lower pl =
     pl\<lparr> gp_is_flea_market := Some (is_flea_market lower (gp_name pl) (gp_summary pl)) \<rparr>"

definition event_sort_key :: "gemini_place \<Rightarrow> bool \<times> pystr" where
  "event_sort_key x =
     (\<not> (case gp_is_flea_market x of None \<Rightarrow> False | Some b \<Rightarrow> b), gp_name x)"

definition rank_events :: "(pystr \<Rightarrow> pystr) \<Rightarrow> gemini_place list \<Rightarrow> gemini_place list" where
  "rank_events lower places =
     take MARKET_MAX_RESULTS (sort_key event_sort_key (map (flag_flea_market lower) places))"

definition gemini_place_id :: "world \<Rightarrow> pystr \<Rightarrow> pystr" where
  "gemini_place_id w nm = ascii ''gemini_'' @ str_nat (unix_time w) @ ascii ''_'' @ take 20 nm"

text \<open>
  Lines 870 to 909, one event. The second branch of the source (\<open>"lat" in place and "lng" in
  place\<close>) is the first one again for a place of \<open>fetch_places_via_gemini\<close>, whose keys hold
  numbers whenever they are present.
\<close>

definition event_place_info :: "world \<Rightarrow> rat \<Rightarrow> rat \<Rightarrow> gemini_place \<Rightarrow> place" where
  "event_place_info w lat lng pl =
     (let coordinates =
            (if gp_lat pl \<noteq> None \<and> gp_lng pl \<noteq> None then (gp_lat pl, gp_lng pl)
             else if gp_formatted_address pl \<noteq> [] then
               (case geocode_address w (gp_formatted_address pl) of
                  Some (la, lo) \<Rightarrow> (Some la, Some lo)
                | None \<Rightarrow> (Some lat, Some lng))
             else (Some lat, Some lng))
      in \<lparr> p_place_id = gemini_place_id w (gp_name pl),
           p_name = gp_name pl,
           p_formatted_address = gp_formatted_address pl,
           p_rating = Some 0,
           p_website = Some (gp_website pl),
           p_summary = Some (gp_summary pl),
           p_lat = fst coordinates,
           p_lng = snd coordinates,
           p_photo_reference = None,
           p_s3_image_url = None,
           p_s3_image_urls = Some [],
           p_reviews = None \<rparr>)"

definition cons_result :: "'a \<Rightarrow> 'e + 'a list \<Rightarrow> 'e + 'a list" where
  "cons_result x r = (case r of Inl e \<Rightarrow> Inl e | Inr xs \<Rightarrow> Inr (x # xs))"

definition website_of :: "details_result \<Rightarrow> pystr" where
  "website_of d = (if truthy_str (d_website d) then get_str (d_website d) [] else get_str (d_url d) [])"

text \<open>Lines 981 to 1010: up to three photos, uploaded; the failed ones are left out, the order is kept.\<close>

definition attraction_image_urls :: "world \<Rightarrow> pystr \<Rightarrow> pystr option list \<Rightarrow> pystr list" where
  "attraction_image_urls w nm photos =
     concat (map (\<lambda>(idx, photo_reference).
        if truthy_str photo_reference then
          (let s3_url = upload_image_to_s3 w (get_str photo_reference [])
                          (nm @ ascii ''_'' @ str_nat idx)
           in if truthy_str s3_url then [get_str s3_url []] else [])
        else [])
      (enumerate 0 (take ATTRACTION_IMAGE_COUNT photos)))"

definition ATTRACTION_FIELDS :: pystr where
  "ATTRACTION_FIELDS = ascii ''name,rating,formatted_address,photos,website,url,geometry''"

text \<open>Lines 912 to 1012, the loop over the attractions; an exception of the details request ends it.\<close>

fun attraction_place_infos ::
    "world \<Rightarrow> rat \<Rightarrow> rat \<Rightarrow> gemini_place list \<Rightarrow> py_exception + place list" where
  "attraction_place_infos w lat lng [] = Inr []"
| "attraction_place_infos w lat lng (pl # places) =
     (let place_id = find_place_by_name_and_address w (gp_name pl) (gp_formatted_address pl) lat lng
      in if \<not> truthy_str place_id then
           cons_result
             \<lparr> p_place_id = gemini_place_id w (gp_name pl),
               p_name = gp_name pl,
               p_formatted_address = gp_formatted_address pl,
               p_rating = Some 0,
               p_website = Some (gp_website pl),
               p_summary = Some (gp_summary pl),
               p_lat = Some lat,
               p_lng = Some lng,
               p_photo_reference = None,
               p_s3_image_url = None,
               p_s3_image_urls = Some [],
               p_reviews = None \<rparr>
             (attraction_place_infos w lat lng places)
         else
           (case place_details w (get_str place_id []) ATTRACTION_FIELDS of
              Inl e \<Rightarrow> Inl e
            | Inr details_data \<Rightarrow>
                if dr_status details_data \<noteq> OK then attraction_place_infos w lat lng places
                else
                  (let d = dr_result details_data;
                       nm = get_str (d_name d) (gp_name pl)
                   in cons_result
                        \<lparr> p_place_id = get_str place_id [],
                          p_name = nm,
                          p_formatted_address =
                            get_str (d_formatted_address d) (gp_formatted_address pl),
                          p_rating = Some (case d_rating d of None \<Rightarrow> 0 | Some r \<Rightarrow> r),
                          p_website = Some (website_of d),
                          p_summary = Some (gp_summary pl),
                          p_lat = (case d_location d of None \<Rightarrow> Some lat | Some (la, lo) \<Rightarrow> la),
                          p_lng = (case d_location d of None \<Rightarrow> Some lng | Some (la, lo) \<Rightarrow> lo),
                          p_photo_reference = None,
                          p_s3_image_url = None,
                          p_s3_image_urls = Some (attraction_image_urls w nm (d_photos d)),
                          p_reviews = None \<rparr>
                        (attraction_place_infos w lat lng places))))"

definition PLACES_KEY_UNSET :: py_exception where
  "PLACES_KEY_UNSET = ValueError (ascii ''GOOGLE_PLACES_API_KEY '' @ [0x672A, 0x8BBE, 0x7F6E])"

definition fetch_places_via_gemini_and_process_images ::
    "world \<Rightarrow> rat \<Rightarrow> rat \<Rightarrow> pystr \<Rightarrow> py_exception + place list" where
  "fetch_places_via_gemini_and_process_images w lat lng main_type =
     (if GOOGLE_PLACES_API_KEY w = [] then Inl PLACES_KEY_UNSET
      else case fetch_places_via_gemini w lat lng main_type of
             Inl e \<Rightarrow> Inl e
           | Inr places \<Rightarrow>
               if places = [] then Inr []
               else
                 (let places' =
                        (if main_type = EVENTS then rank_events (str_lower w) places
                         else if main_type = ATTRACTIONS then take ATTRACTION_MAX_RESULTS places
                         else places)
                  in if main_type = EVENTS then Inr (map (event_place_info w lat lng) places')
                     else attraction_place_infos w lat lng places'))"

subsection \<open>Structured search (lines 31 to 83 and 455 to 666)\<close>

definition map_budget_to_price_level :: "pystr \<Rightarrow> nat option \<times> nat option" where
  "map_budget_to_price_level budget =
     (if budget = ascii ''3000'' @ [0x65E5, 0x5143, 0x4EE5, 0x5185] then (None, Some 1)
      else if budget = ascii ''8000'' @ [0x65E5, 0x5143, 0x4EE5, 0x5185] then (None, Some 2)
      else if budget = ascii ''8000'' @ [0x65E5, 0x5143, 0x4EE5, 0x4E0A] then (Some 3, Some 4)
      else (None, None))"

definition sub_type_keywords :: "(pystr \<times> pystr) list" where
  "sub_type_keywords =
     [([0x5F02, 0x56FD, 0x6599, 0x7406], ascii ''international restaurant''),
      ([0x62C9, 0x9762], ascii ''ramen''),
      ([0x70E4, 0x8089], ascii ''yakiniku''),
      ([0x5BFF, 0x559C, 0x70E7], ascii ''sukiyaki''),
      ([0x4E2D, 0x534E], ascii ''chinese restaurant''),
      ([0x6D77, 0x9C9C], ascii ''seafood''),
      ([0x5C45, 0x9152, 0x5C4B], ascii ''izakaya'')]"

definition map_chinese_type_to_keyword :: "pystr \<Rightarrow> pystr \<Rightarrow> bool \<Rightarrow> pystr" where
  "map_chinese_type_to_keyword main_type sub_type include_time_keyword =
     (if main_type = FOOD then
        (case map_of sub_type_keywords sub_type of None \<Rightarrow> ascii ''restaurant'' | Some k \<Rightarrow> k)
      else if main_type = ATTRACTIONS then ascii ''tourist_attraction''
      else if main_type = EVENTS then
        (if include_time_keyword then ascii ''flea market event upcoming this month''
         else ascii ''market'')
      else ascii ''point_of_interest'')"

definition get_search_radius :: "pystr \<Rightarrow> nat" where
  "get_search_radius main_type =
     (if main_type = FOOD then FOOD_SEARCH_RADIUS
      else if main_type = ATTRACTIONS then ATTRACTION_SEARCH_RADIUS
      else if main_type = EVENTS then MARKET_SEARCH_RADIUS
      else ATTRACTION_SEARCH_RADIUS)"

definition get_max_results :: "pystr \<Rightarrow> nat option" where
  "get_max_results main_type = (if main_type = FOOD then Some FOOD_MAX_RESULTS else None)"

definition request_denied :: "pystr \<Rightarrow> pystr \<Rightarrow> py_exception" where
  "request_denied error_status error_message =
     ValueError (ascii ''Google Places API ''
       @ [0x8BF7, 0x6C42, 0x88AB, 0x62D2, 0x7EDD, 0x3002, 0x72B6, 0x6001] @ ascii '': ''
       @ error_status @ ascii '', '' @ [0x8BE6, 0x60C5] @ ascii '': '' @ error_message
       @ [0x3002, 0x8BF7, 0x68C0, 0x67E5, 0xFF1A] @ ascii ''1) API Key ''
       @ [0x662F, 0x5426, 0x6B63, 0x786E] @ ascii '' 2) Places API ''
       @ [0x662F, 0x5426, 0x5DF2, 0x542F, 0x7528] @ ascii '' 3) API Key ''
       @ [0x9650, 0x5236, 0x8BBE, 0x7F6E])"

text \<open>
  The paging loop, lines 497 to 533. It runs as long as the provider answers \<open>OK\<close> with a
  further page token and the bound (three times the maximum, for food) is not reached; a
  provider that never stops makes it run forever, which is the value \<open>None\<close>.
\<close>

partial_function (option) collect_pages ::
    "world \<Rightarrow> nearby_params \<Rightarrow> nat option \<Rightarrow> nearby_result list \<Rightarrow> pystr option
     \<Rightarrow> (py_exception + nearby_result list) option" where
  "collect_pages w params max_results all_places next_page_token =
     (let params' = (if truthy_str next_page_token
                     then params\<lparr> np_pagetoken := next_page_token \<rparr> else params)
      in case nearby_search w params' of
           Inl e \<Rightarrow> Some (Inl e)
         | Inr data \<Rightarrow>
             if pg_status data \<noteq> OK then
               (if pg_status data = ascii ''REQUEST_DENIED''
                then Some (Inl (request_denied (pg_status data)
                       (get_str (pg_error_message data) [0x65E0, 0x8BE6, 0x7EC6, 0x4FE1, 0x606F])))
                else Some (Inr all_places))
             else
               (let all_places' = all_places @ pg_results data
                in if (case max_results of
                         None \<Rightarrow> False
                       | Some m \<Rightarrow> m \<noteq> 0 \<and> length all_places' \<ge> m * 3)
                   then Some (Inr all_places')
                   else if truthy_str (pg_next_page_token data)
                   then collect_pages w params' max_results all_places' (pg_next_page_token data)
                   else Some (Inr all_places')))"

text \<open>Lines 535 to 538: for food, the collected places by descending rating, the first five.\<close>

definition nearby_rating :: "nearby_result \<Rightarrow> rat" where
  "nearby_rating x = (case nr_rating x of None \<Rightarrow> 0 | Some r \<Rightarrow> r)"

definition rank_food :: "nearby_result list \<Rightarrow> nearby_result list" where
  "rank_food all_places = take FOOD_MAX_RESULTS (sorted_reverse nearby_rating all_places)"

definition details_fields :: "pystr \<Rightarrow> pystr" where
  "details_fields main_type =
     (if main_type = FOOD
      then ascii ''name,rating,formatted_address,photos,website,url,reviews,geometry''
      else ascii ''name,rating,formatted_address,photos,website,url,geometry'')"

text \<open>
  Lines 585 to 637, one place from its details. This path is taken for no events (line 461),
  so the date filter of lines 578 to 582 is never reached.
\<close>

definition place_info_of_details ::
    "pystr \<Rightarrow> rat \<Rightarrow> rat \<Rightarrow> pystr \<Rightarrow> details_result \<Rightarrow> place" where
  "place_info_of_details main_type lat lng place_id d =
     \<lparr> p_place_id = place_id,
       p_name = get_str (d_name d) [],
       p_formatted_address = get_str (d_formatted_address d) [],
       p_rating = Some (case d_rating d of None \<Rightarrow> 0 | Some r \<Rightarrow> r),
       p_website = Some (website_of d),
       p_summary = None,
       p_lat = (case d_location d of None \<Rightarrow> Some lat | Some (la, lo) \<Rightarrow> la),
       p_lng = (case d_location d of None \<Rightarrow> Some lng | Some (la, lo) \<Rightarrow> lo),
       p_photo_reference = (case d_photos d of [] \<Rightarrow> None | photo # _ \<Rightarrow> photo),
       p_s3_image_url = None,
       p_s3_image_urls = None,
       p_reviews = (if main_type = FOOD then Some (review_texts (d_reviews d)) else None) \<rparr>"

text \<open>Lines 541 to 637, the loop over the ranked places; an exception of a details request ends it.\<close>

fun place_infos ::
    "world \<Rightarrow> pystr \<Rightarrow> rat \<Rightarrow> rat \<Rightarrow> nearby_result list \<Rightarrow> py_exception + place list" where
  "place_infos w main_type lat lng [] = Inr []"
| "place_infos w main_type lat lng (pl # all_places) =
     (if \<not> truthy_str (nr_place_id pl) then place_infos w main_type lat lng all_places
      else
        (case place_details w (get_str (nr_place_id pl) []) (details_fields main_type) of
           Inl e \<Rightarrow> Inl e
         | Inr details_data \<Rightarrow>
             if dr_status details_data \<noteq> OK then place_infos w main_type lat lng all_places
             else cons_result
                    (place_info_of_details main_type lat lng (get_str (nr_place_id pl) [])
                       (dr_result details_data))
                    (place_infos w main_type lat lng all_places)))"

text \<open>Lines 639 to 660: the photo of every place that has one is uploaded, by a pool of threads.\<close>

definition with_uploaded_image :: "world \<Rightarrow> place \<Rightarrow> place" where
  "with_uploaded_image w pl =
     (if truthy_str (p_photo_reference pl)
      then pl\<lparr> p_s3_image_url :=
                upload_image_to_s3 w (get_str (p_photo_reference pl) []) (p_name pl) \<rparr>
      else pl)"

text \<open>Lines 468 to 491: the parameters of the nearby search.\<close>

definition search_params :: "rat \<Rightarrow> rat \<Rightarrow> pystr \<Rightarrow> pystr \<Rightarrow> pystr \<Rightarrow> nearby_params" where
  "search_params lat lng main_type sub_type budget =
     \<lparr> np_location = (lat, lng),
       np_radius = get_search_radius main_type,
       np_keyword = map_chinese_type_to_keyword main_type sub_type (main_type = EVENTS),
       np_minprice = fst (map_budget_to_price_level budget),
       np_maxprice = snd (map_budget_to_price_level budget),
       np_pagetoken = None \<rparr>"

definition fetch_data_and_process_images ::
    "world \<Rightarrow> rat \<Rightarrow> rat \<Rightarrow> pystr \<Rightarrow> pystr \<Rightarrow> pystr
     \<Rightarrow> (py_exception + place list) option" where
  "fetch_data_and_process_images w lat lng main_type sub_type budget =
     (if main_type = ATTRACTIONS \<or> main_type = EVENTS
      then Some (fetch_places_via_gemini_and_process_images w lat lng main_type)
      else if GOOGLE_PLACES_API_KEY w = [] then Some (Inl PLACES_KEY_UNSET)
      else
        (case collect_pages w (search_params lat lng main_type sub_type budget)
                (get_max_results main_type) [] None of
           None \<Rightarrow> None
         | Some (Inl e) \<Rightarrow> Some (Inl e)
         | Some (Inr all_places) \<Rightarrow>
             (let ranked = (if main_type = FOOD \<and> all_places \<noteq> []
                            then rank_food all_places else all_places)
              in case place_infos w main_type lat lng ranked of
                   Inl e \<Rightarrow> Some (Inl e)
                 | Inr processed_places \<Rightarrow>
                     Some (Inr (map (with_uploaded_image w) processed_places)))))"

subsection \<open>Narrative generation (lines 1292 to 1395)\<close>

definition NO_SUMMARY :: pystr where
  "NO_SUMMARY = [0x6682, 0x65E0, 0x6982, 0x8981]"

definition place_data_of :: "bool \<Rightarrow> place \<Rightarrow> place_data" where
  "place_data_of is_food_type pl =
     \<lparr> pd_place_id = p_place_id pl,
       pd_name = p_name pl,
       pd_address = p_formatted_address pl,
       pd_rating = p_rating pl,
       pd_reviews = (if is_food_type \<and> p_reviews pl \<noteq> None \<and> p_reviews pl \<noteq> Some []
                     then p_reviews pl else None) \<rparr>"

definition generate_content_and_format ::
    "world \<Rightarrow> ambient \<Rightarrow> place list \<Rightarrow> pystr \<Rightarrow> pystr \<Rightarrow> py_exception + result_document" where
  "generate_content_and_format w amb processed_places main_type sub_type =
     (if main_type = ATTRACTIONS \<or> main_type = EVENTS
      then Inr (format_places_to_markers amb processed_places main_type sub_type)
      else
        (let is_food_type = (main_type = FOOD);
             places_data = map (place_data_of is_food_type) processed_places
         in case gemini_summary_text w is_food_type places_data of
              Inl e \<Rightarrow> Inl e
            | Inr response \<Rightarrow>
                (case json_loads_summaries w (strip_code_fence (strip response)) of
                   Inl e \<Rightarrow> Inl e
                 | Inr summaries \<Rightarrow>
                     (let summaries_dict = map_of (rev summaries);
                          with_summary = (\<lambda>pl. pl\<lparr> p_summary :=
                             Some (case summaries_dict (p_place_id pl) of
                                     None \<Rightarrow> NO_SUMMARY
                                   | Some s \<Rightarrow> s) \<rparr>)
                      in Inr (format_places_to_markers amb (map with_summary processed_places)
                                main_type sub_type)))))"

section \<open>The execution stage (lambda_b_executor.py)\<close>

type_synonym storage = "pystr \<rightharpoonup> job_object"

record executor_event =
  ev_job_id :: "pystr option"
  ev_lat :: "rat option"
  ev_lng :: "rat option"
  ev_main_type :: "pystr option"
  ev_sub_type :: "pystr option"
  ev_budget :: "pystr option"

text \<open>The handler's return value (the elapsed time of the body is left out).\<close>

record executor_response =
  er_statusCode :: nat
  er_jobId :: pystr
  er_status :: pystr
  er_error :: "pystr option"

definition job_key :: "pystr \<Rightarrow> pystr" where
  "job_key job_id = S3_JOB_RESULT_PREFIX @ job_id @ ascii ''.json''"

text \<open>\<open>Config.validate\<close>, config.py lines 113 to 134.\<close>

definition str_join :: "pystr \<Rightarrow> pystr list \<Rightarrow> pystr" where
  "str_join sep xs = (case xs of [] \<Rightarrow> [] | x # rest \<Rightarrow> x @ concat (map (\<lambda>y. sep @ y) rest))"

definition validate :: "world \<Rightarrow> bool \<times> pystr option" where
  "validate w =
     (let missing =
            (if GOOGLE_PLACES_API_KEY w = [] then [ascii ''GOOGLE_PLACES_API_KEY''] else []) @
            (if GEMINI_API_KEY w = [] then [ascii ''GEMINI_API_KEY''] else []) @
            (if S3_BUCKET_NAME w = [] then [ascii ''S3_BUCKET_NAME''] else [])
      in if missing \<noteq> []
         then (False, Some ([0x7F3A, 0x5C11, 0x5FC5, 0x9700, 0x7684, 0x914D, 0x7F6E, 0x9879]
                 @ ascii '': '' @ str_join (ascii '', '') missing))
         else (True, None))"

definition save_result_to_s3 ::
    "world \<Rightarrow> ambient \<Rightarrow> storage \<Rightarrow> pystr \<Rightarrow> result_document \<Rightarrow> pystr
     \<Rightarrow> py_exception + storage" where
  "save_result_to_s3 w amb s3 job_id result status =
     (let result_object = \<lparr> jo_jobId = Some job_id, jo_status = Some status,
                              jo_completedAt = Some (utc_now amb),
                              jo_result = Some result, jo_error = None \<rparr>
      in case put_object w (job_key job_id) result_object of
           Some e \<Rightarrow> Inl e
         | None \<Rightarrow> Inr (s3(job_key job_id \<mapsto> result_object)))"

definition save_error_to_s3 ::
    "world \<Rightarrow> ambient \<Rightarrow> storage \<Rightarrow> pystr \<Rightarrow> pystr \<Rightarrow> py_exception + storage" where
  "save_error_to_s3 w amb s3 job_id error_message =
     (let error_object = \<lparr> jo_jobId = Some job_id, jo_status = Some (ascii ''failed''),
                             jo_completedAt = Some (utc_now amb),
                             jo_result = None, jo_error = Some error_message \<rparr>
      in case put_object w (job_key job_id) error_object of
           Some e \<Rightarrow> Inl e
         | None \<Rightarrow> Inr (s3(job_key job_id \<mapsto> error_object)))"

text \<open>
  The \<open>except\<close> branch of the handler, lines 139 to 163: the error is written to storage, a
  failure of that write is swallowed, and the handler answers 500.
\<close>

definition on_exception ::
    "world \<Rightarrow> ambient \<Rightarrow> storage \<Rightarrow> pystr \<Rightarrow> py_exception \<Rightarrow> executor_response \<times> storage" where
  "on_exception w amb s3 job_id e =
     (\<lparr> er_statusCode = 500, er_jobId = job_id, er_status = ascii ''failed'',
         er_error = Some (str_of_exception e) \<rparr>,
      case save_error_to_s3 w amb s3 job_id (str_of_exception e) of
        Inl save_error \<Rightarrow> s3
      | Inr s3' \<Rightarrow> s3')"

definition MISSING_PARAMETERS :: py_exception where
  "MISSING_PARAMETERS =
     ValueError ([0x7F3A, 0x5C11, 0x5FC5, 0x9700, 0x53C2, 0x6570] @ ascii '': lat, lng, main_type'')"

text \<open>
  The handler, lines 80 to 163. \<open>amb\<close> is what the assembly reads from the clock and the
  random source, \<open>amb_end\<close> what the write of the final state reads. The result is \<open>None\<close>
  when the paging loop of the structured search does not end.
\<close>

definition executor_lambda_handler ::
    "world \<Rightarrow> ambient \<Rightarrow> ambient \<Rightarrow> storage \<Rightarrow> executor_event
     \<Rightarrow> (executor_response \<times> storage) option" where
  "executor_lambda_handler w amb amb_end s3 event =
     (let job_id = get_str (ev_job_id event) (ascii ''unknown'')
      in if \<not> fst (validate w)
         then Some (on_exception w amb_end s3 job_id
                      (ValueError (get_str (snd (validate w)) [])))
         else
           (let lat = (case ev_lat event of None \<Rightarrow> 0 | Some v \<Rightarrow> v);
                lng = (case ev_lng event of None \<Rightarrow> 0 | Some v \<Rightarrow> v);
                main_type = get_str (ev_main_type event) [];
                sub_type = get_str (ev_sub_type event) [];
                budget = get_str (ev_budget event) []
            in if lat = 0 \<or> lng = 0 \<or> main_type = []
               then Some (on_exception w amb_end s3 job_id MISSING_PARAMETERS)
               else
                 (case fetch_data_and_process_images w lat lng main_type sub_type budget of
                    None \<Rightarrow> None
                  | Some (Inl e) \<Rightarrow> Some (on_exception w amb_end s3 job_id e)
                  | Some (Inr processed_places) \<Rightarrow>
                      (case (if processed_places = []
                             then Inr \<lparr> requestId = ascii ''req_'' @ take 8 (uuid4_hex amb),
                                        generatedAt = utc_now amb,
                                        ttlSeconds = 300,
                                        markers = [] \<rparr>
                             else generate_content_and_format w amb processed_places
                                    main_type sub_type) of
                         Inl e \<Rightarrow> Some (on_exception w amb_end s3 job_id e)
                       | Inr result \<Rightarrow>
                           (case save_result_to_s3 w amb_end s3 job_id result
                                   (ascii ''completed'') of
                              Inl e \<Rightarrow> Some (on_exception w amb_end s3 job_id e)
                            | Inr s3' \<Rightarrow>
                                Some (\<lparr> er_statusCode = 200, er_jobId = job_id,
                                        er_status = ascii ''completed'', er_error = None \<rparr>,
                                      s3'))))))"

section \<open>The status query (lambda_c_checker.py)\<close>

text \<open>
  The \<open>body\<close> of a request: missing, \<open>None\<close>, a text or a dictionary; and what \<open>json.loads\<close>
  makes of a text: no JSON, a dictionary, or another value (of the Python type named).
\<close>

datatype event_body =
    BodyMissing
  | BodyNone
  | BodyText pystr
  | BodyDict "pystr \<rightharpoonup> pystr"

datatype body_json =
    NotJson
  | JsonDict "pystr \<rightharpoonup> pystr"
  | JsonOther pystr

record checker_event =
  ce_pathParameters :: "(pystr \<rightharpoonup> pystr) option"
  ce_queryStringParameters :: "(pystr \<rightharpoonup> pystr) option"
  ce_body :: event_body

text \<open>
  What the query reads: the configured bucket, the parser of a request body, the stored
  objects (a job's object, or a text that is not JSON, with the parser's message), and a
  failure of the storage request itself, if there is one.
\<close>

datatype stored = StoredObject job_object | StoredText pystr

record checker_world =
  cw_S3_BUCKET_NAME :: pystr
  cw_json_loads :: "pystr \<Rightarrow> body_json"
  cw_objects :: "pystr \<rightharpoonup> stored"
  cw_request_failure :: "pystr \<Rightarrow> py_exception option"

datatype checker_body =
    ErrorBody pystr
  | CompletedBody pystr "pystr option" "result_document option"
  | FailedBody pystr "pystr option" pystr
  | ProcessingBody pystr pystr nat
  | OtherStatusBody pystr pystr job_object

record checker_response =
  cr_statusCode :: nat
  cr_body :: checker_body

text \<open>
  \<open>get_object\<close> of the storage service: a key that does not exist is the client error
  \<open>NoSuchKey\<close>.
\<close>

definition get_object :: "checker_world \<Rightarrow> pystr \<Rightarrow> py_exception + stored" where
  "get_object cw s3_key =
     (case cw_request_failure cw s3_key of
        Some e \<Rightarrow> Inl e
      | None \<Rightarrow>
          (case cw_objects cw s3_key of
             None \<Rightarrow> Inl (ClientError (ascii ''NoSuchKey'')
                            (ascii ''The specified key does not exist.''))
           | Some obj \<Rightarrow> Inr obj))"

definition str_or :: "pystr option \<Rightarrow> pystr option \<Rightarrow> pystr option" where
  "str_or a b = (if truthy_str a then a else b)"

definition job_id_of_params :: "(pystr \<rightharpoonup> pystr) \<Rightarrow> pystr option" where
  "job_id_of_params params = str_or (params (ascii ''job_id'')) (params (ascii ''jobId''))"

definition internal_error :: "py_exception \<Rightarrow> checker_response" where
  "internal_error e =
     (case e of
        JSONDecodeError m \<Rightarrow>
          \<lparr> cr_statusCode = 400,
            cr_body = ErrorBody (ascii ''JSON '' @ [0x89E3, 0x6790, 0x9519, 0x8BEF] @ ascii '': '' @ m) \<rparr>
      | _ \<Rightarrow>
          \<lparr> cr_statusCode = 500,
            cr_body = ErrorBody ([0x670D, 0x52A1, 0x5668, 0x5185, 0x90E8, 0x9519, 0x8BEF]
                        @ ascii '': '' @ str_of_exception e) \<rparr>)"

definition PROCESSING_MESSAGE :: pystr where
  "PROCESSING_MESSAGE = [0x4EFB, 0x52A1, 0x6B63, 0x5728, 0x5904, 0x7406, 0x4E2D, 0xFF0C,
                         0x8BF7, 0x7A0D, 0x540E, 0x518D, 0x8BD5]"

text \<open>Lines 72 to 147: the lookup of a job's object, once the identifier is known.\<close>

definition check_job :: "checker_world \<Rightarrow> pystr \<Rightarrow> checker_response" where
  "check_job cw job_id =
     (case get_object cw (job_key job_id) of
        Inr (StoredText m) \<Rightarrow> internal_error (JSONDecodeError m)
      | Inr (StoredObject result_data) \<Rightarrow>
          (let status = get_str (jo_status result_data) (ascii ''unknown'')
           in if status = ascii ''completed'' then
                \<lparr> cr_statusCode = 200,
                  cr_body = CompletedBody job_id (jo_completedAt result_data)
                              (jo_result result_data) \<rparr>
              else if status = ascii ''failed'' then
                \<lparr> cr_statusCode = 200,
                  cr_body = FailedBody job_id (jo_completedAt result_data)
                              (get_str (jo_error result_data) [0x672A, 0x77E5, 0x9519, 0x8BEF]) \<rparr>
              else
                \<lparr> cr_statusCode = 200, cr_body = OtherStatusBody job_id status result_data \<rparr>)
      | Inl (ClientError error_code m) \<Rightarrow>
          if error_code = ascii ''NoSuchKey'' \<or> error_code = ascii ''404'' then
            \<lparr> cr_statusCode = 200, cr_body = ProcessingBody job_id PROCESSING_MESSAGE 5 \<rparr>
          else internal_error (ClientError error_code m)
      | Inl e \<Rightarrow> internal_error e)"

text \<open>
  Lines 33 to 53: the job identifier from the path parameters, else from the query
  parameters, else from the body. A body that is no dictionary has no \<open>get\<close>: the handler's
  last \<open>except\<close> catches the error.
\<close>

definition no_attribute_get :: "pystr \<Rightarrow> py_exception" where
  "no_attribute_get type_name =
     AttributeError ([39] @ type_name @ ascii '' object has no attribute '' @ [39] @ ascii ''get'' @ [39])"

definition extract_job_id :: "checker_world \<Rightarrow> checker_event \<Rightarrow> py_exception + pystr option" where
  "extract_job_id cw event =
     (let from_path = (case ce_pathParameters event of
                         None \<Rightarrow> None
                       | Some params \<Rightarrow> job_id_of_params params);
          from_query = (if \<not> truthy_str from_path
                        then (case ce_queryStringParameters event of
                                None \<Rightarrow> from_path
                              | Some params \<Rightarrow> job_id_of_params params)
                        else from_path)
      in if truthy_str from_query then Inr from_query
         else
           (case ce_body event of
              BodyMissing \<Rightarrow> Inr (job_id_of_params Map.empty)
            | BodyNone \<Rightarrow> Inl (no_attribute_get (ascii ''NoneType''))
            | BodyDict params \<Rightarrow> Inr (job_id_of_params params)
            | BodyText s \<Rightarrow>
                (case cw_json_loads cw s of
                   NotJson \<Rightarrow> Inr (job_id_of_params Map.empty)
                 | JsonDict params \<Rightarrow> Inr (job_id_of_params params)
                 | JsonOther type_name \<Rightarrow> Inl (no_attribute_get type_name))))"

text \<open>The handler, lines 28 to 171.\<close>

definition checker_lambda_handler :: "checker_world \<Rightarrow> checker_event \<Rightarrow> checker_response" where
  "checker_lambda_handler cw event =
     (case extract_job_id cw event of
        Inl e \<Rightarrow> internal_error e
      | Inr job_id \<Rightarrow>
          if \<not> truthy_str job_id then
            \<lparr> cr_statusCode = 400,
              cr_body = ErrorBody ([0x7F3A, 0x5C11, 0x5FC5, 0x9700, 0x53C2, 0x6570]
                          @ ascii '': job_id'') \<rparr>
          else if cw_S3_BUCKET_NAME cw = [] then
            \<lparr> cr_statusCode = 500,
              cr_body = ErrorBody (ascii ''S3_BUCKET_NAME '' @ [0x672A, 0x914D, 0x7F6E]) \<rparr>
          else check_job cw (get_str job_id []))"

section \<open>Notions of the specification\<close>

text \<open>
  The coordinate fallback chain as the specification words it: the coordinates the
  generative response supplies, else the geocoded address, else the search centre.
\<close>

definition spec_coordinate_chain ::
    "(rat \<times> rat) option \<Rightarrow> (rat \<times> rat) option \<Rightarrow> rat \<times> rat \<Rightarrow> rat \<times> rat" where
  "spec_coordinate_chain supplied geocoded centre =
     (case supplied of
        Some c \<Rightarrow> c
      | None \<Rightarrow> (case geocoded of Some c \<Rightarrow> c | None \<Rightarrow> centre))"

text \<open>The coordinates a place of the generative search carries, when it carries both.\<close>

definition supplied_coordinates :: "gemini_place \<Rightarrow> (rat \<times> rat) option" where
  "supplied_coordinates pl =
     (case (gp_lat pl, gp_lng pl) of
        (Some la, Some lo) \<Rightarrow> Some (la, lo)
      | _ \<Rightarrow> None)"

definition has_coordinates :: "place \<Rightarrow> bool" where
  "has_coordinates pl = (p_lat pl \<noteq> None \<and> p_lng pl \<noteq> None)"

text \<open>The flea-market classification of a candidate of the output, from its name and summary.\<close>

definition flea_flagged :: "world \<Rightarrow> place \<Rightarrow> bool" where
  "flea_flagged w pl = is_flea_market (str_lower w) (p_name pl) (get_str (p_summary pl) [])"

text \<open>A valid request of the execution stage: both coordinates (not zero) and a category.\<close>

definition request_of :: "executor_event \<Rightarrow> rat \<Rightarrow> rat \<Rightarrow> pystr \<Rightarrow> bool" where
  "request_of event lat lng main_type =
     (ev_lat event = Some lat \<and> ev_lng event = Some lng \<and> ev_main_type event = Some main_type
      \<and> lat \<noteq> 0 \<and> lng \<noteq> 0 \<and> main_type \<noteq> [])"

definition storage_accepts :: "world \<Rightarrow> pystr \<Rightarrow> bool" where
  "storage_accepts w job_id = (\<forall>obj. put_object w (job_key job_id) obj = None)"

text \<open>The two answers of the execution stage and the two objects it writes.\<close>

definition completed_response :: "pystr \<Rightarrow> executor_response" where
  "completed_response job_id =
     \<lparr> er_statusCode = 200, er_jobId = job_id, er_status = ascii ''completed'', er_error = None \<rparr>"

definition failed_response :: "pystr \<Rightarrow> pystr \<Rightarrow> executor_response" where
  "failed_response job_id message =
     \<lparr> er_statusCode = 500, er_jobId = job_id, er_status = ascii ''failed'',
       er_error = Some message \<rparr>"

definition completed_object :: "pystr \<Rightarrow> pystr \<Rightarrow> result_document \<Rightarrow> job_object" where
  "completed_object job_id completed_at result =
     \<lparr> jo_jobId = Some job_id, jo_status = Some (ascii ''completed''),
       jo_completedAt = Some completed_at, jo_result = Some result, jo_error = None \<rparr>"

definition failed_object :: "pystr \<Rightarrow> pystr \<Rightarrow> pystr \<Rightarrow> job_object" where
  "failed_object job_id completed_at message =
     \<lparr> jo_jobId = Some job_id, jo_status = Some (ascii ''failed''),
       jo_completedAt = Some completed_at, jo_result = None, jo_error = Some message \<rparr>"

definition empty_document :: "ambient \<Rightarrow> result_document" where
  "empty_document amb =
     \<lparr> requestId = ascii ''req_'' @ take 8 (uuid4_hex amb), generatedAt = utc_now amb,
       ttlSeconds = 300, markers = [] \<rparr>"

text \<open>
  The coordinates a place record gives to its candidate: what its location holds under
  \<open>lat\<close> and \<open>lng\<close>, and the search centre when the record has no location.
\<close>

definition coordinates_of :: "place \<Rightarrow> rat option \<times> rat option" where
  "coordinates_of pl = (p_lat pl, p_lng pl)"

definition record_coordinates ::
    "(rat option \<times> rat option) option \<Rightarrow> rat \<times> rat \<Rightarrow> rat option \<times> rat option" where
  "record_coordinates location centre =
     (case location of
        None \<Rightarrow> (Some (fst centre), Some (snd centre))
      | Some c \<Rightarrow> c)"

text \<open>
  The coordinates of a candidate of the attractions category: the search centre when the text
  search by name and address finds no place identifier; the coordinates its place record
  gives when one is found and the record is retrieved. A candidate whose record is answered
  with another status than \<open>OK\<close> is left out (\<open>None\<close>).
\<close>

definition attraction_coordinates ::
    "world \<Rightarrow> rat \<Rightarrow> rat \<Rightarrow> gemini_place \<Rightarrow> (rat option \<times> rat option) option" where
  "attraction_coordinates w lat lng c =
     (case find_place_by_name_and_address w (gp_name c) (gp_formatted_address c) lat lng of
        None \<Rightarrow> Some (Some lat, Some lng)
      | Some place_id \<Rightarrow>
          if place_id = [] then Some (Some lat, Some lng)
          else
            (case place_details w place_id ATTRACTION_FIELDS of
               Inl e \<Rightarrow> None
             | Inr reply \<Rightarrow>
                 if dr_status reply = OK
                 then Some (record_coordinates (d_location (dr_result reply)) (lat, lng))
                 else None))"

text \<open>
  A place whose coordinates are the ones its own place record gives, and a place that lacks a
  coordinate because the location of its place record lacks that number.
\<close>

definition from_record :: "world \<Rightarrow> pystr \<Rightarrow> rat \<Rightarrow> rat \<Rightarrow> place \<Rightarrow> bool" where
  "from_record w field_list lat lng pl =
     (\<exists>reply. place_details w (p_place_id pl) field_list = Inr reply
        \<and> dr_status reply = OK
        \<and> coordinates_of pl = record_coordinates (d_location (dr_result reply)) (lat, lng))"

definition record_lacks_number :: "world \<Rightarrow> pystr \<Rightarrow> place \<Rightarrow> bool" where
  "record_lacks_number w field_list pl =
     (\<exists>reply la lo. place_details w (p_place_id pl) field_list = Inr reply
        \<and> dr_status reply = OK
        \<and> d_location (dr_result reply) = Some (la, lo)
        \<and> (la = None \<or> lo = None)
        \<and> coordinates_of pl = (la, lo))"

text \<open>
  The conditions of the food scenario: the detail lookup of a candidate succeeds (and names
  the place), and the narrative generation answers with a parseable text.
\<close>

definition details_ok :: "world \<Rightarrow> pystr \<Rightarrow> nearby_result \<Rightarrow> bool" where
  "details_ok w main_type c =
     (truthy_str (nr_place_id c) \<and>
      (case place_details w (get_str (nr_place_id c) []) (details_fields main_type) of
         Inl e \<Rightarrow> False
       | Inr reply \<Rightarrow> dr_status reply = OK))"

definition details_name :: "world \<Rightarrow> pystr \<Rightarrow> nearby_result \<Rightarrow> pystr" where
  "details_name w main_type c =
     (case place_details w (get_str (nr_place_id c) []) (details_fields main_type) of
        Inl e \<Rightarrow> []
      | Inr reply \<Rightarrow> get_str (d_name (dr_result reply)) [])"

definition summaries_ok :: "world \<Rightarrow> bool" where
  "summaries_ok w =
     (\<forall>places_data.
        case gemini_summary_text w True places_data of
          Inl e \<Rightarrow> False
        | Inr response \<Rightarrow>
            (case json_loads_summaries w (strip_code_fence (strip response)) of
               Inl e \<Rightarrow> False
             | Inr summaries \<Rightarrow> True))"

section \<open>Concrete inputs\<close>

definition sample_ambient :: ambient where
  "sample_ambient = \<lparr> uuid4_hex = ascii ''0123456789abcdef0123456789abcdef'',
      utc_now = ascii ''2025-01-01T00:00:00Z'', time_ms = 1735689600000 \<rparr>"

definition other_ambient :: ambient where
  "other_ambient = \<lparr> uuid4_hex = ascii ''fedcba9876543210fedcba9876543210'',
      utc_now = ascii ''2025-01-01T00:00:07Z'', time_ms = 1735689607000 \<rparr>"

definition sample_place :: "pystr \<Rightarrow> rat option \<Rightarrow> place" where
  "sample_place nm r = \<lparr> p_place_id = ascii ''id_'' @ nm, p_name = nm,
      p_formatted_address = ascii ''Tokyo'', p_rating = r, p_website = Some [],
      p_summary = Some (ascii ''ok''), p_lat = Some (3568 / 100), p_lng = Some (13976 / 100),
      p_photo_reference = None, p_s3_image_url = None, p_s3_image_urls = Some [],
      p_reviews = None \<rparr>"

definition three_places :: "place list" where
  "three_places = [sample_place (ascii ''a'') (Some (43 / 10)),
                   sample_place (ascii ''b'') (Some (43 / 10)),
                   sample_place (ascii ''c'') (Some (43 / 10))]"

definition ten_unrated_places :: "place list" where
  "ten_unrated_places = replicate 10 (sample_place (ascii ''a'') None)"

definition sample_review :: "pystr \<Rightarrow> int option \<Rightarrow> rat \<Rightarrow> review" where
  "sample_review t likes r = \<lparr> rv_text = Some t, rv_likes = likes, rv_thumbs_up = None,
     rv_helpful_votes = None, rv_rating = Some r \<rparr>"

definition sample_details :: "pystr \<Rightarrow> rat \<Rightarrow> review list \<Rightarrow> details_result" where
  "sample_details nm r rs = \<lparr> d_name = Some nm, d_rating = Some r,
     d_formatted_address = Some (ascii ''Tokyo''), d_website = None,
     d_url = Some (ascii ''https://maps.example/'' @ nm),
     d_location = Some (Some (143 / 4), Some (559 / 4)), d_photos = [], d_reviews = rs \<rparr>"

definition sample_reviews :: "review list" where
  "sample_reviews =
     [sample_review (ascii ''fine'') None 3,
      sample_review [] (Some 9) 5,
      sample_review (ascii ''great'') None 5,
      sample_review (ascii ''popular'') (Some 2) 1,
      sample_review (ascii ''good'') None 4,
      sample_review (ascii ''poor'') None 1,
      sample_review (ascii ''superb'') None 5,
      sample_review (ascii ''bad'') None 2]"

definition unreachable :: py_exception where
  "unreachable = RequestException (ascii ''connection refused'')"

definition not_json :: py_exception where
  "not_json = JSONDecodeError (ascii ''Expecting value: line 1 column 1 (char 0)'')"

definition base_world :: world where
  "base_world =
     \<lparr> GOOGLE_PLACES_API_KEY = ascii ''places-key'',
       GEMINI_API_KEY = ascii ''gemini-key'',
       S3_BUCKET_NAME = ascii ''bucket'',
       str_lower = ascii_lower,
       unix_time = 1735689600,
       nearby_search = (\<lambda>params. Inl unreachable),
       place_details = (\<lambda>place_id fields. Inl unreachable),
       text_search = (\<lambda>query location. Inl unreachable),
       geocode = (\<lambda>address. Inl unreachable),
       photo_upload = (\<lambda>photo_reference place_name. None),
       gemini_search_text = (\<lambda>lat lng main_type. Inl unreachable),
       json_loads_places = (\<lambda>s. Inl not_json),
       gemini_summary_text = (\<lambda>is_food_type places_data. Inl unreachable),
       json_loads_summaries = (\<lambda>s. Inl not_json),
       put_object = (\<lambda>s3_key obj. None) \<rparr>"

definition centre_lat :: rat where "centre_lat = 3568 / 100"

definition centre_lng :: rat where "centre_lng = 13976 / 100"

definition events_json :: pystr where
  "events_json = 91 # ascii ''{\"place_name\":\"Zoo Night\",\"place_address\":\"Ueno\",\"summary\":\"lanterns\"},{\"place_name\":\"Harbor Flea Market\",\"place_address\":\"Pier 1\",\"latitude\":35.5,\"longitude\":139.5,\"summary\":\"antiques\"},{\"place_name\":\"Book Fair\",\"summary\":\"paperbacks\"},{\"place_name\":\"Antique Market\",\"place_address\":\"Nowhere 9\",\"summary\":\"old things\"},{\"place_name\":\"Cherry Festival\",\"place_address\":\"Ueno\",\"summary\":\"blossoms\"},{\"place_name\":\"Art Walk\",\"place_address\":\"Ueno\",\"summary\":\"galleries\"}'' @ [93]"

definition event_item :: "string \<Rightarrow> string option \<Rightarrow> (rat \<times> rat) option \<Rightarrow> string \<Rightarrow> gemini_item" where
  "event_item nm address location summary =
     \<lparr> gi_place_name = Some (ascii nm), gi_name = None,
       gi_place_address = map_option ascii address, gi_address = None,
       gi_latitude = map_option fst location, gi_lat = None,
       gi_longitude = map_option snd location, gi_lng = None,
       gi_summary = Some (ascii summary), gi_website = None \<rparr>"

definition events_items :: "gemini_item list" where
  "events_items =
     [event_item ''Zoo Night'' (Some ''Ueno'') None ''lanterns'',
      event_item ''Harbor Flea Market'' (Some ''Pier 1'') (Some (71 / 2, 279 / 2)) ''antiques'',
      event_item ''Book Fair'' None None ''paperbacks'',
      event_item ''Antique Market'' (Some ''Nowhere 9'') None ''old things'',
      event_item ''Cherry Festival'' (Some ''Ueno'') None ''blossoms'',
      event_item ''Art Walk'' (Some ''Ueno'') None ''galleries'']"

definition ueno_geocoder :: "pystr \<Rightarrow> py_exception + geocode_reply" where
  "ueno_geocoder address =
     (if address = ascii ''Ueno''
      then Inr \<lparr> gc_status = ascii ''OK'', gc_results = [Some (143 / 4, 559 / 4)] \<rparr>
      else Inr \<lparr> gc_status = ascii ''ZERO_RESULTS'', gc_results = [] \<rparr>)"

definition events_world :: world where
  "events_world = base_world
     \<lparr> gemini_search_text := (\<lambda>lat lng main_type.
          Inr (Some events_json)),
       json_loads_places := (\<lambda>s. if s = events_json then Inr events_items else Inl not_json),
       geocode := ueno_geocoder \<rparr>"

definition event_candidate :: "string \<Rightarrow> string \<Rightarrow> (rat \<times> rat) option \<Rightarrow> string \<Rightarrow> gemini_place" where
  "event_candidate nm address location summary =
     \<lparr> gp_name = ascii nm, gp_formatted_address = ascii address, gp_summary = ascii summary,
       gp_rating = 0, gp_website = [], gp_lat = map_option fst location,
       gp_lng = map_option snd location, gp_is_flea_market = None \<rparr>"

definition events_ranked_candidates :: "gemini_place list" where
  "events_ranked_candidates =
     [event_candidate ''Antique Market'' ''Nowhere 9'' None ''old things'',
      event_candidate ''Harbor Flea Market'' ''Pier 1'' (Some (71 / 2, 279 / 2)) ''antiques'',
      event_candidate ''Art Walk'' ''Ueno'' None ''galleries'',
      event_candidate ''Book Fair'' [] None ''paperbacks'',
      event_candidate ''Cherry Festival'' ''Ueno'' None ''blossoms'']"

definition events_output :: "place list" where
  "events_output = map (event_place_info events_world centre_lat centre_lng)
     (map (flag_flea_market ascii_lower) events_ranked_candidates)"

definition polling_world :: checker_world where
  "polling_world = \<lparr> cw_S3_BUCKET_NAME = ascii ''bucket'',
     cw_json_loads = (\<lambda>s. NotJson),
     cw_objects = Map.empty,
     cw_request_failure = (\<lambda>s3_key. None) \<rparr>"

definition polling_event :: checker_event where
  "polling_event = \<lparr> ce_pathParameters = Some [ascii ''job_id'' \<mapsto> ascii ''job_42''],
     ce_queryStringParameters = None, ce_body = BodyNone \<rparr>"

definition events_request :: executor_event where
  "events_request = \<lparr> ev_job_id = Some (ascii ''job_1''), ev_lat = Some centre_lat,
     ev_lng = Some centre_lng, ev_main_type = Some EVENTS, ev_sub_type = Some [],
     ev_budget = Some [] \<rparr>"

definition empty_array_world :: world where
  "empty_array_world = base_world
     \<lparr> gemini_search_text := (\<lambda>lat lng main_type. Inr (Some [91, 93])),
       json_loads_places := (\<lambda>s. if s = [91, 93] then Inr [] else Inl not_json) \<rparr>"

definition blank_world :: world where
  "blank_world = base_world
     \<lparr> gemini_search_text := (\<lambda>lat lng main_type. Inr (Some (ascii '' ''))) \<rparr>"

definition garbled_world :: world where
  "garbled_world = base_world
     \<lparr> gemini_search_text := (\<lambda>lat lng main_type. Inr (Some (ascii ''Sorry, nothing found.''))) \<rparr>"

definition tower_json :: pystr where
  "tower_json = 91 # ascii ''{\"name\":\"Old Tower\",\"address\":\"Ueno\",\"summary\":\"a tower\"}'' @ [93]"

definition tower_item :: gemini_item where
  "tower_item = \<lparr> gi_place_name = None, gi_name = Some (ascii ''Old Tower''),
     gi_place_address = None, gi_address = Some (ascii ''Ueno''),
     gi_latitude = None, gi_lat = None, gi_longitude = None, gi_lng = None,
     gi_summary = Some (ascii ''a tower''), gi_website = None \<rparr>"

definition tower_world :: world where
  "tower_world = base_world
     \<lparr> gemini_search_text := (\<lambda>lat lng main_type. Inr (Some tower_json)),
       json_loads_places := (\<lambda>s. if s = tower_json then Inr [tower_item] else Inl not_json),
       text_search := (\<lambda>query location.
          Inr \<lparr> sr_status = ascii ''ZERO_RESULTS'', sr_results = [] \<rparr>),
       geocode := ueno_geocoder \<rparr>"

definition tower_output :: place where
  "tower_output =
     \<lparr> p_place_id = gemini_place_id tower_world (ascii ''Old Tower''),
       p_name = ascii ''Old Tower'',
       p_formatted_address = ascii ''Ueno'',
       p_rating = Some 0,
       p_website = Some [],
       p_summary = Some (ascii ''a tower''),
       p_lat = Some centre_lat,
       p_lng = Some centre_lng,
       p_photo_reference = None,
       p_s3_image_url = None,
       p_s3_image_urls = Some [],
       p_reviews = None \<rparr>"

definition diner :: "string \<Rightarrow> rat \<Rightarrow> nearby_result" where
  "diner place_id r = \<lparr> nr_place_id = Some (ascii place_id), nr_rating = Some r \<rparr>"

definition twelve_diners :: "nearby_result list" where
  "twelve_diners =
     [diner ''p01'' (41 / 10), diner ''p02'' (39 / 10), diner ''p03'' (24 / 5),
      diner ''p04'' 4, diner ''p05'' (9 / 2), diner ''p06'' (7 / 2),
      diner ''p07'' (49 / 10), diner ''p08'' (21 / 5), diner ''p09'' (47 / 10),
      diner ''p10'' 3, diner ''p11'' (23 / 5), diner ''p12'' (22 / 5)]"

definition summaries_json :: pystr where
  "summaries_json = 91 # ascii ''{\"place_id\":\"p07\",\"summary_text\":\"tasty\"}'' @ [93]"

definition food_world :: world where
  "food_world = base_world
     \<lparr> nearby_search := (\<lambda>params.
          Inr \<lparr> pg_status = ascii ''OK'', pg_error_message = None,
                pg_results = twelve_diners, pg_next_page_token = None \<rparr>),
       place_details := (\<lambda>place_id field_list.
          Inr \<lparr> dr_status = ascii ''OK'', dr_error_message = None,
                dr_result = sample_details place_id 4 [] \<rparr>),
       gemini_summary_text := (\<lambda>is_food_type places_data. Inr summaries_json),
       json_loads_summaries := (\<lambda>s. if s = summaries_json
                                     then Inr [(ascii ''p07'', ascii ''tasty'')]
                                     else Inl not_json) \<rparr>"

definition food_request :: executor_event where
  "food_request = \<lparr> ev_job_id = Some (ascii ''job_1''), ev_lat = Some centre_lat,
     ev_lng = Some centre_lng, ev_main_type = Some FOOD, ev_sub_type = Some [],
     ev_budget = Some [] \<rparr>"

definition sights_json :: pystr where
  "sights_json = 91 # ascii ''{\"name\":\"Old Tower\",\"address\":\"Ueno\",\"summary\":\"a tower\"},{\"name\":\"Castle\",\"address\":\"Hill 1\",\"summary\":\"a keep\"},{\"name\":\"Garden\",\"summary\":\"ponds\"},{\"name\":\"Bridge\",\"address\":\"River 2\",\"summary\":\"arches\"},{\"name\":\"Shrine\",\"address\":\"Wood 3\",\"summary\":\"gates\"}'' @ [93]"

definition sight_item :: "string \<Rightarrow> string option \<Rightarrow> string \<Rightarrow> gemini_item" where
  "sight_item nm address summary =
     \<lparr> gi_place_name = None, gi_name = Some (ascii nm),
       gi_place_address = None, gi_address = map_option ascii address,
       gi_latitude = None, gi_lat = None, gi_longitude = None, gi_lng = None,
       gi_summary = Some (ascii summary), gi_website = None \<rparr>"

definition sights_items :: "gemini_item list" where
  "sights_items =
     [sight_item ''Old Tower'' (Some ''Ueno'') ''a tower'',
      sight_item ''Castle'' (Some ''Hill 1'') ''a keep'',
      sight_item ''Garden'' None ''ponds'',
      sight_item ''Bridge'' (Some ''River 2'') ''arches'',
      sight_item ''Shrine'' (Some ''Wood 3'') ''gates'']"

definition sights_search :: "pystr \<Rightarrow> rat \<times> rat \<Rightarrow> py_exception + search_reply" where
  "sights_search query location =
     (if query = ascii ''Castle Hill 1''
      then Inr \<lparr> sr_status = ascii ''OK'', sr_results = [Some (ascii ''castle'')] \<rparr>
      else if query = ascii ''Garden''
      then Inr \<lparr> sr_status = ascii ''OK'', sr_results = [Some (ascii ''garden'')] \<rparr>
      else if query = ascii ''Bridge River 2''
      then Inr \<lparr> sr_status = ascii ''OK'', sr_results = [Some (ascii ''bridge'')] \<rparr>
      else if query = ascii ''Shrine Wood 3''
      then Inr \<lparr> sr_status = ascii ''OK'', sr_results = [Some (ascii ''shrine'')] \<rparr>
      else Inr \<lparr> sr_status = ascii ''ZERO_RESULTS'', sr_results = [] \<rparr>)"

definition sights_location :: "pystr \<Rightarrow> (rat option \<times> rat option) option" where
  "sights_location place_id =
     (if place_id = ascii ''garden'' then None
      else if place_id = ascii ''bridge'' then Some (Some (143 / 4), None)
      else Some (Some (143 / 4), Some (559 / 4)))"

definition sights_details :: "pystr \<Rightarrow> pystr \<Rightarrow> py_exception + details_reply" where
  "sights_details place_id field_list =
     Inr \<lparr> dr_status = (if place_id = ascii ''shrine'' then ascii ''NOT_FOUND'' else ascii ''OK''),
           dr_error_message = None,
           dr_result = (sample_details place_id 4 [])\<lparr> d_location := sights_location place_id \<rparr> \<rparr>"

definition sights_world :: world where
  "sights_world = base_world
     \<lparr> gemini_search_text := (\<lambda>lat lng main_type. Inr (Some sights_json)),
       json_loads_places := (\<lambda>s. if s = sights_json then Inr sights_items else Inl not_json),
       text_search := sights_search,
       place_details := sights_details,
       geocode := ueno_geocoder \<rparr>"

definition sight_candidate :: "string \<Rightarrow> string \<Rightarrow> string \<Rightarrow> gemini_place" where
  "sight_candidate nm address summary =
     \<lparr> gp_name = ascii nm, gp_formatted_address = ascii address, gp_summary = ascii summary,
       gp_rating = 0, gp_website = [], gp_lat = None, gp_lng = None,
       gp_is_flea_market = None \<rparr>"

definition sights_candidates :: "gemini_place list" where
  "sights_candidates =
     [sight_candidate ''Old Tower'' ''Ueno'' ''a tower'',
      sight_candidate ''Castle'' ''Hill 1'' ''a keep'',
      sight_candidate ''Garden'' [] ''ponds'',
      sight_candidate ''Bridge'' ''River 2'' ''arches'',
      sight_candidate ''Shrine'' ''Wood 3'' ''gates'']"

definition found_sight :: "string \<Rightarrow> string \<Rightarrow> rat option \<times> rat option \<Rightarrow> place" where
  "found_sight place_id summary c =
     \<lparr> p_place_id = ascii place_id,
       p_name = ascii place_id,
       p_formatted_address = ascii ''Tokyo'',
       p_rating = Some 4,
       p_website = Some (ascii ''https://maps.example/'' @ ascii place_id),
       p_summary = Some (ascii summary),
       p_lat = fst c,
       p_lng = snd c,
       p_photo_reference = None,
       p_s3_image_url = None,
       p_s3_image_urls = Some [],
       p_reviews = None \<rparr>"

definition sights_output :: "place list" where
  "sights_output =
     [tower_output,
      found_sight ''castle'' ''a keep'' (Some (143 / 4), Some (559 / 4)),
      found_sight ''garden'' ''ponds'' (Some centre_lat, Some centre_lng),
      found_sight ''bridge'' ''arches'' (Some (143 / 4), None)]"

definition diner_location :: "pystr \<Rightarrow> (rat option \<times> rat option) option" where
  "diner_location place_id =
     (if place_id = ascii ''p03'' then None
      else if place_id = ascii ''p09'' then Some (None, Some (559 / 4))
      else Some (Some (143 / 4), Some (559 / 4)))"

definition geometry_world :: world where
  "geometry_world = food_world
     \<lparr> place_details := (\<lambda>place_id field_list.
          Inr \<lparr> dr_status = ascii ''OK'', dr_error_message = None,
                dr_result = (sample_details place_id 4 [])
                              \<lparr> d_location := diner_location place_id \<rparr> \<rparr>) \<rparr>"

definition geometry_output :: "place list" where
  "geometry_output =
     map (\<lambda>place_id. place_info_of_details FOOD centre_lat centre_lng (ascii place_id)
            ((sample_details (ascii place_id) 4 [])
               \<lparr> d_location := diner_location (ascii place_id) \<rparr>))
       [''p07'', ''p03'', ''p09'', ''p11'', ''p05'']"

section \<open>Properties\<close>

subsection \<open>Rounding\<close>

lemma round_half_even_of_int: "round_half_even (of_int k) = k"
  by (simp add: round_half_even_def)

lemma py_round_hundredths: "py_round (of_int k / 100) 2 = of_int k / 100"
  by (simp add: py_round_def round_half_even_of_int)

lemma round_half_even_bounds: "\<lfloor>y\<rfloor> \<le> round_half_even y \<and> round_half_even y \<le> \<lfloor>y\<rfloor> + 1"
  by (simp add: round_half_even_def Let_def)

lemma round_half_even_mono:
  assumes "x \<le> y"
  shows "round_half_even x \<le> round_half_even y"
proof (cases "\<lfloor>x\<rfloor> = \<lfloor>y\<rfloor>")
  case True
  with assms show ?thesis
    by (auto simp: round_half_even_def Let_def)
next
  case False
  with assms have "\<lfloor>x\<rfloor> < \<lfloor>y\<rfloor>"
    by (simp add: floor_mono order.not_eq_order_implies_strict)
  then have "\<lfloor>x\<rfloor> + 1 \<le> \<lfloor>y\<rfloor>" by simp
  with round_half_even_bounds [of x] round_half_even_bounds [of y] show ?thesis
    by linarith
qed

lemma hundredths_max: "max (1 / 10) (rat_of_int k / 100) = rat_of_int (max 10 k) / 100"
  by (simp add: max_def)

lemma penalty_floor_round:
  assumes "x = rat_of_int h / 100"
  shows "py_round (max (1 / 10) (x - rat_of_nat i * (5 / 100))) 2
         = rat_of_int (max 10 (h - 5 * int i)) / 100"
proof -
  have "x - rat_of_nat i * (5 / 100) = rat_of_int (h - 5 * int i) / 100"
    using assms by (simp add: field_simps)
  then have "max (1 / 10) (x - rat_of_nat i * (5 / 100)) = rat_of_int (max 10 (h - 5 * int i)) / 100"
    by (simp only: hundredths_max)
  then show ?thesis
    by (simp only: py_round_hundredths)
qed

lemma penalty_floor_round_spec:
  assumes "x = rat_of_int h / 100"
  shows "py_round (max (1 / 10) (x - (5 / 100) * rat_of_nat i)) 2
         = rat_of_int (max 10 (h - 5 * int i)) / 100"
  using penalty_floor_round [OF assms, of i] by (simp only: mult.commute [of "5 / 100"])

lemma half_hundredths: "(1 / 2 :: rat) = rat_of_int 50 / 100"
  by simp

lemma py_round_half: "py_round (1 / 2) 2 = 1 / 2"
  using py_round_hundredths [of 50] by simp

subsection \<open>Relevance score\<close>

lemma marker_nth:
  "i < length ps \<Longrightarrow>
   markers (format_places_to_markers amb ps mt st) ! i = place_to_marker amb mt st i (ps ! i)"
  by (simp add: format_places_to_markers_def nth_enumerate_eq)

lemma relevanceScore_nth:
  "i < length ps \<Longrightarrow>
   relevanceScore (markers (format_places_to_markers amb ps mt st) ! i)
   = relevance_score (p_rating (ps ! i)) i"
  by (simp add: marker_nth place_to_marker_def Let_def)

lemma relevance_score_no_rating:
  assumes "rating_key = None \<or> rating_key = Some 0"
  shows "relevance_score rating_key i = rat_of_int (max 10 (50 - 5 * int i)) / 100"
proof -
  have "relevance_score rating_key i
        = py_round (max (1 / 10) (py_round (1 / 2) 2 - rat_of_nat i * (5 / 100))) 2"
    using assms by (auto simp add: relevance_score_def Let_def)
  then show ?thesis
    by (simp only: py_round_half penalty_floor_round [OF half_hundredths])
qed

lemma relevance_score_tenths:
  assumes "r = rat_of_int k / 10"
  shows "relevance_score (Some r) i = rat_of_int (max 10 (50 + k - 5 * int i)) / 100"
proof (cases "r = 0")
  case True
  with assms have "k = 0" by simp
  with True relevance_score_no_rating [of "Some r" i] show ?thesis by simp
next
  case False
  have a: "1 / 2 + r / 10 = rat_of_int (50 + k) / 100"
    using assms by simp
  have "relevance_score (Some r) i
        = py_round (max (1 / 10) (py_round (1 / 2 + r / 10) 2 - rat_of_nat i * (5 / 100))) 2"
    using False by (simp add: relevance_score_def Let_def)
  also have "py_round (1 / 2 + r / 10) 2 = rat_of_int (50 + k) / 100"
    by (simp only: a py_round_hundredths)
  finally show ?thesis
    by (simp only: penalty_floor_round [OF refl])
qed

lemma one_decimalE:
  assumes "one_decimal r" obtains k where "r = rat_of_int k / 10"
proof
  from assms have e: "rat_of_int \<lfloor>r * 10\<rfloor> = r * 10"
    unfolding one_decimal_def .
  show "r = rat_of_int \<lfloor>r * 10\<rfloor> / 10"
    unfolding e by simp
qed

lemma spec_relevance_score_tenths:
  assumes "r = rat_of_int k / 10"
  shows "spec_relevance_score (Some r) i = rat_of_int (max 10 (50 + k - 5 * int i)) / 100"
proof -
  have h: "1 / 2 + (if r \<noteq> 0 then r / 10 else 0) = rat_of_int (50 + k) / 100"
    using assms by simp
  show ?thesis
    unfolding spec_relevance_score_def option.case
    by (rule penalty_floor_round_spec [OF h])
qed

lemma spec_relevance_score_None:
  "spec_relevance_score None i = rat_of_int (max 10 (50 - 5 * int i)) / 100"
proof -
  have h: "1 / 2 + 0 = rat_of_int 50 / 100"
    by simp
  show ?thesis
    unfolding spec_relevance_score_def option.case
    by (rule penalty_floor_round_spec [OF h])
qed

lemma relevance_matches_spec:
  assumes "case rating_key of None \<Rightarrow> True | Some r \<Rightarrow> one_decimal r"
  shows "relevance_score rating_key i = spec_relevance_score rating_key i"
proof (cases rating_key)
  case None
  then show ?thesis
    by (simp only: relevance_score_no_rating [OF disjI1 [OF refl]] spec_relevance_score_None)
next
  case (Some r)
  with assms obtain k where "r = rat_of_int k / 10"
    by (auto elim: one_decimalE)
  with Some show ?thesis
    by (simp only: relevance_score_tenths spec_relevance_score_tenths)
qed

lemma round_half_even_ties:
  "round_half_even (127 / 2) = 64" "round_half_even (117 / 2) = 58"
proof -
  have f: "\<lfloor>127 / 2 :: rat\<rfloor> = 63" "\<lfloor>117 / 2 :: rat\<rfloor> = 58"
    by (simp_all add: floor_eq_iff)
  show "round_half_even (127 / 2) = 64" "round_half_even (117 / 2) = 58"
    by (simp_all add: round_half_even_def Let_def f)
qed

text \<open>
  Claim C2, as stated for every candidate, fails: the source rounds the base score to two
  decimals before it subtracts the position penalty, and rounds again after the floor. A
  candidate with the rating 1.35 at index 1 has the base 0.635, rounded to 0.64, and the
  score 0.59; the specification's single formula gives 0.585, rounded to 0.58. (The binary
  floating point of the source yields the same two values.)
\<close>

theorem C2_double_rounding_counterexample:
  "relevanceScore (markers (format_places_to_markers sample_ambient
      [sample_place (ascii ''a'') (Some (45 / 10)), sample_place (ascii ''b'') (Some (135 / 100))]
      FOOD []) ! 1) = 59 / 100
   \<and> spec_relevance_score (Some (135 / 100)) 1 = 58 / 100"
proof -
  let ?ps = "[sample_place (ascii ''a'') (Some (45 / 10)), sample_place (ascii ''b'') (Some (135 / 100))]"
  have len: "1 < length ?ps" by simp
  have r: "p_rating (?ps ! 1) = Some (27 / 20)" by (simp add: sample_place_def)
  have a: "relevance_score (Some (27 / 20)) 1 = 59 / 100"
    using py_round_hundredths [of 59]
    by (simp add: relevance_score_def Let_def py_round_def round_half_even_ties)
  have b: "spec_relevance_score (Some (27 / 20)) 1 = 58 / 100"
    by (simp add: spec_relevance_score_def py_round_def round_half_even_ties)
  show ?thesis
    unfolding relevanceScore_nth [OF len] r using a b by simp
qed

text \<open>
  Claim C2, amended. For every candidate at position \<open>i\<close> (0-based) of the list given to the
  Document Assembler whose rating is absent or has at most one decimal digit (the format in
  which the places provider reports ratings), the marker's relevance score is the
  specification's formula: base 0.5, plus rating/10 when a non-zero rating is present, minus
  0.05 times \<open>i\<close>, floored at 0.1, rounded to two decimals. On these ratings the two roundings
  of the source and the single rounding of the formula agree.
\<close>

theorem C2_relevance_score_formula:
  assumes "i < length ps"
    and "case p_rating (ps ! i) of None \<Rightarrow> True | Some r \<Rightarrow> one_decimal r"
  shows "relevanceScore (markers (format_places_to_markers amb ps mt st) ! i)
         = spec_relevance_score (p_rating (ps ! i)) i"
  using assms by (simp add: marker_nth place_to_marker_def Let_def relevance_matches_spec)

text \<open>
  Claim C2, amended, at a concrete list: food, second candidate, rating 4.3; the score is 0.88.
\<close>

theorem C2_relevance_score_formula_witness:
  "relevanceScore (markers (format_places_to_markers sample_ambient
      [sample_place (ascii ''a'') (Some (45 / 10)), sample_place (ascii ''b'') (Some (43 / 10))]
      FOOD []) ! 1) = 88 / 100"
proof -
  let ?ps = "[sample_place (ascii ''a'') (Some (45 / 10)), sample_place (ascii ''b'') (Some (43 / 10))]"
  have len: "1 < length ?ps" by simp
  have dec: "case p_rating (?ps ! 1) of None \<Rightarrow> True | Some r \<Rightarrow> one_decimal r"
    by (simp add: sample_place_def one_decimal_def)
  have "spec_relevance_score (p_rating (?ps ! 1)) 1 = 88 / 100"
    using py_round_hundredths [of 88]
    by (simp add: sample_place_def spec_relevance_score_def)
  with C2_relevance_score_formula [OF len dec, of sample_ambient FOOD "[]"]
  show ?thesis by simp
qed

lemma relevance_score_closed_form:
  "\<exists>h. (\<forall>i. relevance_score rating_key i = rat_of_int (max 10 (h - 5 * int i)) / 100)
      \<and> ((case rating_key of None \<Rightarrow> True | Some r \<Rightarrow> r \<le> 5) \<longrightarrow> h \<le> 100)"
proof -
  define rating where "rating = (case rating_key of None \<Rightarrow> 0 | Some r \<Rightarrow> r)"
  define base where "base = (if rating \<noteq> 0 then 1 / 2 + rating / 10 else 1 / 2)"
  define h where "h = round_half_even (base * 100)"
  have b: "py_round base 2 = rat_of_int h / 100"
    by (simp add: py_round_def h_def)
  have closed: "relevance_score rating_key i = rat_of_int (max 10 (h - 5 * int i)) / 100" for i
  proof -
    have "relevance_score rating_key i
          = py_round (max (1 / 10) (py_round base 2 - rat_of_nat i * (5 / 100))) 2"
      by (simp add: relevance_score_def Let_def rating_def base_def)
    then show ?thesis
      by (simp only: penalty_floor_round [OF b])
  qed
  have bound: "h \<le> 100" if "case rating_key of None \<Rightarrow> True | Some r \<Rightarrow> r \<le> 5"
  proof -
    from that have "rating \<le> 5"
      by (simp add: rating_def split: option.splits)
    then have "base * 100 \<le> rat_of_int 100"
      by (simp add: base_def)
    then have "h \<le> round_half_even (rat_of_int 100)"
      unfolding h_def by (rule round_half_even_mono)
    then show ?thesis
      by (simp only: round_half_even_of_int)
  qed
  from closed bound show ?thesis by blast
qed

text \<open>
  Claim C3, as stated, fails: the score is floored at 0.1, so that for ten candidates without
  a rating the ninth and the tenth marker both score 0.1.
\<close>

theorem C3_strict_decrease_counterexample:
  "\<not> relevanceScore (markers (format_places_to_markers sample_ambient ten_unrated_places EVENTS []) ! 9)
     < relevanceScore (markers (format_places_to_markers sample_ambient ten_unrated_places EVENTS []) ! 8)"
proof -
  have r: "p_rating (ten_unrated_places ! 8) = None" "p_rating (ten_unrated_places ! 9) = None"
    by (simp_all add: ten_unrated_places_def sample_place_def)
  have l: "8 < length ten_unrated_places" "9 < length ten_unrated_places"
    by (simp_all add: ten_unrated_places_def)
  show ?thesis
    unfolding relevanceScore_nth [OF l(1)] relevanceScore_nth [OF l(2)] r
      relevance_score_no_rating [OF disjI1 [OF refl]]
    by simp
qed

text \<open>
  Claim C3, amended. Every marker's relevance score is at least 0.1, and at most 1.0 when the
  rating is at most 5; among candidates with the same rating the score never grows with the
  index, and it strictly decreases from every index whose score is above the floor 0.1.
\<close>

theorem C3_relevance_bounds_and_order:
  fixes amb ps mt st
  defines "score \<equiv> \<lambda>k. relevanceScore (markers (format_places_to_markers amb ps mt st) ! k)"
  shows "(\<forall>i < length ps. 1 / 10 \<le> score i \<and> (rating_at_most_5 (ps ! i) \<longrightarrow> score i \<le> 1))
       \<and> (\<forall>i j. i < j \<and> j < length ps \<and> p_rating (ps ! i) = p_rating (ps ! j) \<longrightarrow>
              score j \<le> score i \<and> (1 / 10 < score i \<longrightarrow> score j < score i))"
proof (intro conjI allI impI)
  fix i assume i: "i < length ps"
  obtain h where h: "\<And>k. relevance_score (p_rating (ps ! i)) k = rat_of_int (max 10 (h - 5 * int k)) / 100"
    using relevance_score_closed_form [of "p_rating (ps ! i)"] by blast
  show "1 / 10 \<le> score i"
    using i by (simp add: score_def relevanceScore_nth h)
next
  fix i assume i: "i < length ps" and r: "rating_at_most_5 (ps ! i)"
  obtain h where h: "\<And>k. relevance_score (p_rating (ps ! i)) k = rat_of_int (max 10 (h - 5 * int k)) / 100"
    and "h \<le> 100"
    using relevance_score_closed_form [of "p_rating (ps ! i)"] r
    unfolding rating_at_most_5_def by blast
  then have "max 10 (h - 5 * int i) \<le> 100" by simp
  then have "rat_of_int (max 10 (h - 5 * int i)) \<le> 100"
    by (metis of_int_le_iff of_int_numeral)
  then show "score i \<le> 1"
    using i by (simp add: score_def relevanceScore_nth h)
next
  fix i j
  assume a: "i < j \<and> j < length ps \<and> p_rating (ps ! i) = p_rating (ps ! j)"
  obtain h where h: "\<And>k. relevance_score (p_rating (ps ! i)) k = rat_of_int (max 10 (h - 5 * int k)) / 100"
    using relevance_score_closed_form [of "p_rating (ps ! i)"] by blast
  from a have il: "i < length ps" and jl: "j < length ps"
    and eq: "p_rating (ps ! j) = p_rating (ps ! i)" by simp_all
  have si: "score i = rat_of_int (max 10 (h - 5 * int i)) / 100"
    unfolding score_def relevanceScore_nth [OF il] by (rule h)
  have sj: "score j = rat_of_int (max 10 (h - 5 * int j)) / 100"
    unfolding score_def relevanceScore_nth [OF jl] eq by (rule h)
  from a have ij: "int i < int j" by simp
  then have "max 10 (h - 5 * int j) \<le> max 10 (h - 5 * int i)" by linarith
  then show "score j \<le> score i"
    unfolding si sj by (simp add: divide_right_mono)
  assume "1 / 10 < score i"
  then have "10 < max 10 (h - 5 * int i)"
    unfolding si by simp
  with ij have "max 10 (h - 5 * int j) < max 10 (h - 5 * int i)" by linarith
  then show "score j < score i"
    unfolding si sj by (simp add: divide_strict_right_mono)
qed

text \<open>Claim C3, amended, at three candidates rated 4.3.\<close>

theorem C3_relevance_bounds_and_order_witness:
  "1 / 10 \<le> relevanceScore (markers (format_places_to_markers sample_ambient three_places FOOD []) ! 0)
   \<and> relevanceScore (markers (format_places_to_markers sample_ambient three_places FOOD []) ! 0) \<le> 1
   \<and> relevanceScore (markers (format_places_to_markers sample_ambient three_places FOOD []) ! 1)
       < relevanceScore (markers (format_places_to_markers sample_ambient three_places FOOD []) ! 0)"
proof -
  let ?s = "\<lambda>k. relevanceScore (markers (format_places_to_markers sample_ambient three_places FOOD []) ! k)"
  note inst = C3_relevance_bounds_and_order [of three_places sample_ambient FOOD "[]"]
  have l: "0 < length three_places" "1 < length three_places"
    by (simp_all add: three_places_def)
  have r: "rating_at_most_5 (three_places ! 0)"
    "p_rating (three_places ! 0) = p_rating (three_places ! 1)"
    by (simp_all add: three_places_def sample_place_def rating_at_most_5_def)
  have s0: "?s 0 = 93 / 100"
    unfolding relevanceScore_nth [OF l(1)]
    using relevance_score_tenths [of "43 / 10" 43 0]
    by (simp add: three_places_def sample_place_def)
  from inst l r have "1 / 10 \<le> ?s 0" "?s 0 \<le> 1"
    by blast+
  moreover from inst l r have "1 / 10 < ?s 0 \<longrightarrow> ?s 1 < ?s 0"
    by (metis zero_less_one)
  with s0 have "?s 1 < ?s 0" by simp
  ultimately show ?thesis by simp
qed

subsection \<open>What the assembled document depends on\<close>

text \<open>
  Claim C9, as stated, fails: the assembler draws a fresh request identifier and reads the
  clock, so two invocations on the same (here empty) candidate list differ.
\<close>

theorem C9_identical_documents_counterexample:
  "format_places_to_markers sample_ambient [] FOOD []
   \<noteq> format_places_to_markers other_ambient [] FOOD []"
  by (simp add: format_places_to_markers_def sample_ambient_def other_ambient_def ascii_def)

lemma without_clock_fields_place_to_marker:
  "without_clock_fields (place_to_marker amb1 mt st i pl)
   = without_clock_fields (place_to_marker amb2 mt st i pl)"
  by (simp add: without_clock_fields_def place_to_marker_def Let_def)

text \<open>
  Claim C9, amended. The assembler calls no provider; two invocations on the same candidate
  list, category and subcategory produce documents that agree in everything but the request
  identifier, the generation time and each marker's editor time, creation time and update time.
\<close>

theorem C9_assembler_depends_only_on_run_fields:
  "without_run_fields (format_places_to_markers amb1 ps mt st)
   = without_run_fields (format_places_to_markers amb2 ps mt st)"
  by (simp add: without_run_fields_def format_places_to_markers_def
      without_clock_fields_place_to_marker split_def)

text \<open>Claim C9, amended, at two runs that differ in their random draw and clock.\<close>

theorem C9_assembler_depends_only_on_run_fields_witness:
  "without_run_fields (format_places_to_markers sample_ambient three_places FOOD [])
   = without_run_fields (format_places_to_markers other_ambient three_places FOOD [])"
  by (rule C9_assembler_depends_only_on_run_fields)

subsection \<open>Marker identifiers\<close>

lemma str_nat_one_digit: "n < 10 \<Longrightarrow> str_nat n = [48 + n]"
  by (subst str_nat.simps) simp

lemma str_nat_two_digits:
  assumes "10 \<le> n" "n < 100"
  shows "str_nat n = [48 + n div 10, 48 + n mod 10]"
proof -
  from assms have "n div 10 < 10" by simp
  then have "str_nat (n div 10) = [48 + n div 10]" by (rule str_nat_one_digit)
  with assms show ?thesis by (subst str_nat.simps) simp
qed

lemma format_02d_one_digit: "n < 10 \<Longrightarrow> format_02d n = [48, 48 + n]"
  by (simp add: format_02d_def str_nat_one_digit)

lemma format_02d_two_digits:
  "10 \<le> n \<Longrightarrow> n < 100 \<Longrightarrow> format_02d n = [48 + n div 10, 48 + n mod 10]"
  by (simp add: format_02d_def str_nat_two_digits)

lemma decode_str_nat:
  "foldl (\<lambda>a d. 10 * a + (d - 48)) 0 (str_nat n) = n"
proof (induction n rule: str_nat.induct)
  case (1 n)
  show ?case
  proof (cases "n < 10")
    case True
    then show ?thesis by (simp add: str_nat_one_digit)
  next
    case False
    with 1 have "foldl (\<lambda>a d. 10 * a + (d - 48)) 0 (str_nat (n div 10)) = n div 10" by simp
    with False show ?thesis by (subst str_nat.simps) simp
  qed
qed

lemma decode_zeros:
  "foldl (\<lambda>a d. 10 * a + (d - 48)) 0 (replicate k 48 @ ds)
   = foldl (\<lambda>a d. 10 * a + (d - 48)) (0::nat) ds"
  by (induction k) simp_all

lemma decode_format_02d: "foldl (\<lambda>a d. 10 * a + (d - 48)) 0 (format_02d n) = n"
  unfolding format_02d_def by (simp only: decode_zeros decode_str_nat)

lemma format_02d_inject: "format_02d m = format_02d n \<Longrightarrow> m = n"
  by (metis decode_format_02d)

lemma generate_marker_id_inject: "generate_marker_id i = generate_marker_id j \<Longrightarrow> i = j"
  using format_02d_inject [of "i + 1" "j + 1"] by (simp add: generate_marker_id_def)

text \<open>
  Claim C10. In every assembled document the marker at position \<open>i\<close> (0-based) has the identifier
  "mk_" followed by \<open>i + 1\<close> padded with zeros to two digits, its content identifier is "post_"
  followed by the same number, and its deep link is "mapannai://marker/" followed by its own
  identifier. The identifier depends on the position only: markers at different positions
  have different identifiers, whatever the places are.
\<close>

theorem C10_marker_identifiers_positional:
  assumes "i < length ps"
  shows "marker_id (markers (format_places_to_markers amb ps mt st) ! i)
           = ascii ''mk_'' @ format_02d (i + 1)
       \<and> content_id (marker_content (markers (format_places_to_markers amb ps mt st) ! i))
           = ascii ''post_'' @ format_02d (i + 1)
       \<and> deeplink (markers (format_places_to_markers amb ps mt st) ! i)
           = ascii ''mapannai://marker/''
               @ marker_id (markers (format_places_to_markers amb ps mt st) ! i)
       \<and> (i + 1 < 10 \<longrightarrow> format_02d (i + 1) = [48, 48 + (i + 1)])
       \<and> (10 \<le> i + 1 \<and> i + 1 < 100 \<longrightarrow>
            format_02d (i + 1) = [48 + (i + 1) div 10, 48 + (i + 1) mod 10])
       \<and> (\<forall>j < length ps. j \<noteq> i \<longrightarrow>
            marker_id (markers (format_places_to_markers amb ps mt st) ! j)
              \<noteq> marker_id (markers (format_places_to_markers amb ps mt st) ! i))"
proof -
  have m: "marker_id (markers (format_places_to_markers amb ps mt st) ! k) = generate_marker_id k"
    if "k < length ps" for k
    using that by (simp add: marker_nth place_to_marker_def Let_def)
  have "\<forall>j < length ps. j \<noteq> i \<longrightarrow>
            marker_id (markers (format_places_to_markers amb ps mt st) ! j)
              \<noteq> marker_id (markers (format_places_to_markers amb ps mt st) ! i)"
    using assms by (auto simp add: m dest: generate_marker_id_inject)
  moreover have "marker_id (markers (format_places_to_markers amb ps mt st) ! i)
           = ascii ''mk_'' @ format_02d (i + 1)"
    using assms by (simp add: m generate_marker_id_def)
  moreover have "content_id (marker_content (markers (format_places_to_markers amb ps mt st) ! i))
           = ascii ''post_'' @ format_02d (i + 1)"
    using assms by (simp add: marker_nth place_to_marker_def Let_def generate_content_id_def)
  moreover have "deeplink (markers (format_places_to_markers amb ps mt st) ! i)
           = ascii ''mapannai://marker/''
               @ marker_id (markers (format_places_to_markers amb ps mt st) ! i)"
    using assms by (simp add: marker_nth place_to_marker_def Let_def)
  moreover have "i + 1 < 10 \<longrightarrow> format_02d (i + 1) = [48, 48 + (i + 1)]"
    using format_02d_one_digit [of "i + 1"] by blast
  moreover have "10 \<le> i + 1 \<and> i + 1 < 100 \<longrightarrow>
            format_02d (i + 1) = [48 + (i + 1) div 10, 48 + (i + 1) mod 10]"
    using format_02d_two_digits [of "i + 1"] by blast
  ultimately show ?thesis by blast
qed

text \<open>Claim C10 at the third of three candidates.\<close>

theorem C10_marker_identifiers_positional_witness:
  "marker_id (markers (format_places_to_markers sample_ambient three_places FOOD []) ! 2)
     = ascii ''mk_03''
   \<and> content_id (marker_content (markers (format_places_to_markers sample_ambient three_places FOOD []) ! 2))
     = ascii ''post_03''
   \<and> deeplink (markers (format_places_to_markers sample_ambient three_places FOOD []) ! 2)
     = ascii ''mapannai://marker/mk_03''"
proof -
  have l: "2 < length three_places" by (simp add: three_places_def)
  have f: "format_02d (2 + 1) = [48, 51]"
    using C10_marker_identifiers_positional [OF l, of sample_ambient FOOD "[]"] by simp
  show ?thesis
    using C10_marker_identifiers_positional [OF l, of sample_ambient FOOD "[]"]
    by (simp only: f) (simp add: ascii_def)
qed

subsection \<open>Review selection\<close>

lemma sorted_reverse_descending: "sorted_wrt (\<lambda>a b. k b \<le> k a) (sorted_reverse k xs)"
proof -
  have "sorted (map k (sort_key k (rev xs)))" by simp
  then have "sorted_wrt (\<lambda>a b. k a \<le> k b) (sort_key k (rev xs))"
    by (simp only: sorted_map)
  then show ?thesis
    by (simp add: sorted_reverse_def sorted_wrt_rev)
qed

lemma mset_sorted_reverse: "mset (sorted_reverse k xs) = mset xs"
  by (simp add: sorted_reverse_def)

lemma length_sorted_reverse: "length (sorted_reverse k xs) = length xs"
  by (simp add: sorted_reverse_def)

lemma set_sorted_reverse: "set (sorted_reverse k xs) = set xs"
  by (simp add: sorted_reverse_def)

lemma sorted_wrt_take_drop:
  assumes "sorted_wrt P xs"
  shows "\<forall>a \<in> set (take n xs). \<forall>b \<in> set (drop n xs). P a b"
proof -
  from assms have "sorted_wrt P (take n xs @ drop n xs)" by simp
  then show ?thesis unfolding sorted_wrt_append by blast
qed

lemma mset_take_drop: "mset xs - mset (take n xs) = mset (drop n xs)"
proof -
  have "mset xs = mset (take n xs) + mset (drop n xs)"
    by (metis append_take_drop_id mset_append)
  then show ?thesis by simp
qed

lemma top_reviews_unfold:
  "top_reviews reviews = take 5 (sorted_reverse get_review_score (filter has_text reviews))"
  by (simp add: top_reviews_def)

text \<open>
  Claim C6. For the food category, review selection on a place's raw reviews discards every
  review without text, ranks the remaining ones in descending order of the pair (helpfulness
  signal, rating), that is by the helpfulness signal, and by the rating among reviews with the
  same signal, in particular when no review carries one, and keeps at most five: the first
  five of that ranking, no review left out ranking above a kept one. Their texts are what the
  place carries as reviews into the narrative generation.
\<close>

theorem C6_review_selection:
  "(\<forall>r \<in> set (top_reviews reviews). r \<in> set reviews \<and> has_text r)
   \<and> mset (top_reviews reviews) \<subseteq># mset (filter has_text reviews)
   \<and> sorted_wrt (\<lambda>a b. get_review_score b \<le> get_review_score a) (top_reviews reviews)
   \<and> sorted_wrt (\<lambda>a b. review_likes b \<le> review_likes a) (top_reviews reviews)
   \<and> ((\<forall>r \<in> set reviews. review_likes r = 0) \<longrightarrow>
        sorted_wrt (\<lambda>a b. review_rating b \<le> review_rating a) (top_reviews reviews))
   \<and> (\<forall>a \<in> set (top_reviews reviews).
        \<forall>b \<in># mset (filter has_text reviews) - mset (top_reviews reviews).
          get_review_score b \<le> get_review_score a)
   \<and> length (review_texts reviews) = min 5 (length (filter has_text reviews))
   \<and> review_texts reviews = map (\<lambda>r. get_str (rv_text r) []) (top_reviews reviews)
   \<and> p_reviews (place_info_of_details FOOD lat lng place_id d) = Some (review_texts (d_reviews d))"
proof -
  let ?s = "sorted_reverse get_review_score (filter has_text reviews)"
  have desc: "sorted_wrt (\<lambda>a b. get_review_score b \<le> get_review_score a) ?s"
    by (rule sorted_reverse_descending)
  have sub: "set (top_reviews reviews) \<subseteq> set ?s"
    unfolding top_reviews_unfold by (rule set_take_subset)
  have a: "\<forall>r \<in> set (top_reviews reviews). r \<in> set reviews \<and> has_text r"
    using sub by (auto simp add: set_sorted_reverse)
  have "mset (take 5 ?s) \<subseteq># mset ?s"
    by (metis append_take_drop_id mset_append mset_subset_eq_add_left)
  then have b: "mset (top_reviews reviews) \<subseteq># mset (filter has_text reviews)"
    by (simp only: top_reviews_unfold mset_sorted_reverse)
  have c: "sorted_wrt (\<lambda>a b. get_review_score b \<le> get_review_score a) (top_reviews reviews)"
    unfolding top_reviews_unfold using desc by (rule sorted_wrt_take)
  have d: "sorted_wrt (\<lambda>a b. review_likes b \<le> review_likes a) (top_reviews reviews)"
    using c by (rule sorted_wrt_mono_rel [rotated])
      (auto simp add: get_review_score_def less_eq_prod_def)
  have e: "sorted_wrt (\<lambda>a b. review_rating b \<le> review_rating a) (top_reviews reviews)"
    if "\<forall>r \<in> set reviews. review_likes r = 0"
    using c by (rule sorted_wrt_mono_rel [rotated])
      (use a that in \<open>auto simp add: get_review_score_def less_eq_prod_def\<close>)
  have "mset (filter has_text reviews) - mset (top_reviews reviews) = mset (drop 5 ?s)"
    using mset_take_drop [of ?s 5] by (simp only: top_reviews_unfold mset_sorted_reverse)
  then have f: "\<forall>a \<in> set (top_reviews reviews).
        \<forall>b \<in># mset (filter has_text reviews) - mset (top_reviews reviews).
          get_review_score b \<le> get_review_score a"
    using sorted_wrt_take_drop [OF desc, of 5] by (simp add: top_reviews_unfold)
  have g: "length (review_texts reviews) = min 5 (length (filter has_text reviews))"
    by (simp add: review_texts_def top_reviews_unfold length_sorted_reverse min.commute)
  have h: "review_texts reviews = map (\<lambda>r. get_str (rv_text r) []) (top_reviews reviews)"
    by (simp add: review_texts_def get_str_def)
  have i: "p_reviews (place_info_of_details FOOD lat lng place_id d) = Some (review_texts (d_reviews d))"
    by (simp add: place_info_of_details_def)
  from a b c d e f g h i show ?thesis by blast
qed

lemma sample_reviews_valid: "length (filter has_text sample_reviews) = 7"
  by code_simp

lemma sample_review_texts:
  "review_texts sample_reviews
   = [ascii ''popular'', ascii ''great'', ascii ''superb'', ascii ''good'', ascii ''fine'']"
  by code_simp

text \<open>
  Claim C6 at eight reviews: one has no text, one has a helpfulness signal, seven have text.
\<close>

theorem C6_review_selection_witness:
  "length (review_texts sample_reviews) = 5
   \<and> review_texts sample_reviews
       = [ascii ''popular'', ascii ''great'', ascii ''superb'', ascii ''good'', ascii ''fine'']
   \<and> sorted_wrt (\<lambda>a b. review_likes b \<le> review_likes a) (top_reviews sample_reviews)"
proof -
  note inst = C6_review_selection [of sample_reviews 0 0 "[]" "sample_details [] 0 []"]
  from inst have "length (review_texts sample_reviews) = min 5 (length (filter has_text sample_reviews))"
    by blast
  then have "length (review_texts sample_reviews) = 5"
    by (simp add: sample_reviews_valid)
  moreover from inst
  have "sorted_wrt (\<lambda>a b. review_likes b \<le> review_likes a) (top_reviews sample_reviews)"
    by blast
  ultimately show ?thesis
    using sample_review_texts by blast
qed

subsection \<open>Ordering of events\<close>

lemma events_run_shape:
  assumes "fetch_places_via_gemini_and_process_images w lat lng EVENTS = Inr out"
  obtains candidates where "fetch_places_via_gemini w lat lng EVENTS = Inr candidates"
    and "out = map (event_place_info w lat lng) (rank_events (str_lower w) candidates)"
proof -
  from assms obtain candidates where c: "fetch_places_via_gemini w lat lng EVENTS = Inr candidates"
    by (auto simp add: fetch_places_via_gemini_and_process_images_def split: if_splits sum.splits)
  with assms have "out = map (event_place_info w lat lng) (rank_events (str_lower w) candidates)"
    by (auto simp add: fetch_places_via_gemini_and_process_images_def rank_events_def Let_def
        split: if_splits)
  with c show ?thesis by (rule that)
qed

lemma event_place_info_name_summary:
  "p_name (event_place_info w lat lng c) = gp_name c"
  "p_summary (event_place_info w lat lng c) = Some (gp_summary c)"
  by (simp_all add: event_place_info_def Let_def)

lemma rank_events_sorted: "sorted (map event_sort_key (rank_events lower cs))"
proof -
  have "sorted (map event_sort_key (sort_key event_sort_key (map (flag_flea_market lower) cs)))"
    by simp
  then have "sorted (take MARKET_MAX_RESULTS
      (map event_sort_key (sort_key event_sort_key (map (flag_flea_market lower) cs))))"
    by (rule sorted_wrt_take)
  then show ?thesis
    by (simp only: rank_events_def take_map)
qed

lemma rank_events_flagged:
  assumes "c \<in> set (rank_events lower cs)"
  shows "event_sort_key c = (\<not> is_flea_market lower (gp_name c) (gp_summary c), gp_name c)"
proof -
  from assms have "c \<in> set (sort_key event_sort_key (map (flag_flea_market lower) cs))"
    unfolding rank_events_def by (rule in_set_takeD)
  then obtain c0 where "c = flag_flea_market lower c0" by auto
  then show ?thesis
    by (simp add: event_sort_key_def flag_flea_market_def)
qed

lemma rank_events_length:
  "length (rank_events lower cs) = min MARKET_MAX_RESULTS (length cs)"
  by (simp add: rank_events_def min.commute)

text \<open>
  Claim C4. For the events category, whatever mix of flea markets and other events the
  generative search returns, the candidates of the output are the first MARKET_MAX_RESULTS of
  the candidates sorted with the flea markets first and by name within each group: in the
  output every flea-market candidate (classified by keyword match on name and summary)
  precedes every other candidate, and each of the two groups is in ascending order of name.
\<close>

theorem C4_events_ordering:
  assumes "fetch_places_via_gemini_and_process_images w lat lng EVENTS = Inr out"
  shows "\<exists>candidates. fetch_places_via_gemini w lat lng EVENTS = Inr candidates
     \<and> map (\<lambda>p. (p_name p, p_summary p)) out
         = map (\<lambda>c. (gp_name c, Some (gp_summary c)))
             (take MARKET_MAX_RESULTS
                (sort_key event_sort_key (map (flag_flea_market (str_lower w)) candidates)))
     \<and> length out = min MARKET_MAX_RESULTS (length candidates)
     \<and> (\<forall>i j. i < j \<and> j < length out \<and> flea_flagged w (out ! j) \<longrightarrow> flea_flagged w (out ! i))
     \<and> (\<forall>i j. i < j \<and> j < length out \<and> flea_flagged w (out ! i) = flea_flagged w (out ! j) \<longrightarrow>
           p_name (out ! i) \<le> p_name (out ! j))"
proof -
  from assms obtain candidates where c: "fetch_places_via_gemini w lat lng EVENTS = Inr candidates"
    and out: "out = map (event_place_info w lat lng) (rank_events (str_lower w) candidates)"
    by (rule events_run_shape)
  let ?r = "rank_events (str_lower w) candidates"
  have len: "length out = length ?r" by (simp add: out)
  have key: "event_sort_key (?r ! k) = (\<not> flea_flagged w (out ! k), p_name (out ! k))"
    if "k < length out" for k
  proof -
    from that len have "?r ! k \<in> set ?r" by simp
    then have "event_sort_key (?r ! k)
        = (\<not> is_flea_market (str_lower w) (gp_name (?r ! k)) (gp_summary (?r ! k)), gp_name (?r ! k))"
      by (rule rank_events_flagged)
    moreover from that len have "out ! k = event_place_info w lat lng (?r ! k)"
      by (simp add: out)
    ultimately show ?thesis
      by (simp add: flea_flagged_def event_place_info_name_summary get_str_def)
  qed
  have ord: "event_sort_key (?r ! i) \<le> event_sort_key (?r ! j)" if "i < j" "j < length out" for i j
  proof -
    from that len have "map event_sort_key ?r ! i \<le> map event_sort_key ?r ! j"
      by (intro sorted_nth_mono [OF rank_events_sorted]) simp_all
    with that len show ?thesis by simp
  qed
  have a: "map (\<lambda>p. (p_name p, p_summary p)) out
         = map (\<lambda>c. (gp_name c, Some (gp_summary c)))
             (take MARKET_MAX_RESULTS
                (sort_key event_sort_key (map (flag_flea_market (str_lower w)) candidates)))"
    by (simp add: out rank_events_def event_place_info_name_summary comp_def)
  have b: "length out = min MARKET_MAX_RESULTS (length candidates)"
    by (simp only: len rank_events_length)
  have d: "flea_flagged w (out ! i)" if "i < j \<and> j < length out \<and> flea_flagged w (out ! j)" for i j
  proof -
    from that have "i < j" "j < length out" "i < length out" by simp_all
    with ord [of i j] key [of i] key [of j] that show ?thesis
      by (auto simp add: less_eq_prod_def)
  qed
  have e: "p_name (out ! i) \<le> p_name (out ! j)"
    if "i < j \<and> j < length out \<and> flea_flagged w (out ! i) = flea_flagged w (out ! j)" for i j
  proof -
    from that have "i < j" "j < length out" "i < length out" by simp_all
    with ord [of i j] key [of i] key [of j] that show ?thesis
      by (auto simp add: less_eq_prod_def)
  qed
  from c a b d e show ?thesis by blast
qed

subsection \<open>Response texts without a code fence\<close>

lemma strip_bracketed: "strip (91 # body @ [93]) = 91 # body @ [93]"
  by (simp add: strip_def isspace_def)

lemma not_endswith_last:
  assumes "p \<noteq> []" "s \<noteq> []" "last s \<noteq> last p"
  shows "\<not> endswith s p"
proof
  assume e: "endswith s p"
  then have "drop (length s - length p) s = p" by (simp add: endswith_def)
  with assms(1) have "last (drop (length s - length p) s) = last p" by simp
  moreover from e assms(1) have "length s - length p < length s"
    by (cases p) (auto simp add: endswith_def)
  ultimately show False using assms(3) by (simp add: last_drop)
qed

lemma strip_code_fence_bracketed: "strip_code_fence (91 # body @ [93]) = 91 # body @ [93]"
proof -
  have "\<not> endswith (91 # body @ [93]) (ascii ''```'')"
    by (rule not_endswith_last) (simp_all add: ascii_def)
  then show ?thesis
    by (simp add: strip_code_fence_def startswith_def ascii_def strip_bracketed Let_def)
qed

subsection \<open>A run of the events category\<close>

lemma events_json_plain:
  "events_json \<noteq> []" "strip events_json = events_json"
  "strip_code_fence events_json = events_json"
  unfolding events_json_def by (simp_all only: strip_bracketed strip_code_fence_bracketed list.distinct not_False_eq_True)

lemma events_candidates:
  "fetch_places_via_gemini events_world centre_lat centre_lng EVENTS
   = Inr (concat (map (gemini_item_to_place EVENTS) events_items))"
  by (simp add: fetch_places_via_gemini_def events_world_def base_world_def truthy_str_def
      get_str_def response_text_of_def events_json_plain Let_def)

lemma ascii_nonempty: "ascii (c # cs) \<noteq> []" "ascii [] = []"
  by (simp_all add: ascii_def)

lemma events_candidates_explicit:
  "concat (map (gemini_item_to_place EVENTS) events_items) =
     [event_candidate ''Zoo Night'' ''Ueno'' None ''lanterns'',
      event_candidate ''Harbor Flea Market'' ''Pier 1'' (Some (71 / 2, 279 / 2)) ''antiques'',
      event_candidate ''Book Fair'' [] None ''paperbacks'',
      event_candidate ''Antique Market'' ''Nowhere 9'' None ''old things'',
      event_candidate ''Cherry Festival'' ''Ueno'' None ''blossoms'',
      event_candidate ''Art Walk'' ''Ueno'' None ''galleries'']"
  by (simp add: events_items_def event_item_def gemini_item_to_place_def event_candidate_def
      truthy_str_def truthy_num_def get_str_def Let_def ascii_nonempty del: not_None_eq)

lemma events_flags:
  "is_flea_market ascii_lower (ascii ''Zoo Night'') (ascii ''lanterns'') = False"
  "is_flea_market ascii_lower (ascii ''Harbor Flea Market'') (ascii ''antiques'') = True"
  "is_flea_market ascii_lower (ascii ''Book Fair'') (ascii ''paperbacks'') = False"
  "is_flea_market ascii_lower (ascii ''Antique Market'') (ascii ''old things'') = True"
  "is_flea_market ascii_lower (ascii ''Cherry Festival'') (ascii ''blossoms'') = False"
  "is_flea_market ascii_lower (ascii ''Art Walk'') (ascii ''galleries'') = False"
  by (simp_all add: is_flea_market_def flea_market_keywords_def ascii_lower_def ascii_def)

lemma event_sort_key_candidate:
  "event_sort_key (flag_flea_market lower (event_candidate nm address location summary))
   = (\<not> is_flea_market lower (ascii nm) (ascii summary), ascii nm)"
  by (simp add: event_sort_key_def flag_flea_market_def event_candidate_def)

lemma events_ranked:
  "rank_events ascii_lower
     [event_candidate ''Zoo Night'' ''Ueno'' None ''lanterns'',
      event_candidate ''Harbor Flea Market'' ''Pier 1'' (Some (71 / 2, 279 / 2)) ''antiques'',
      event_candidate ''Book Fair'' [] None ''paperbacks'',
      event_candidate ''Antique Market'' ''Nowhere 9'' None ''old things'',
      event_candidate ''Cherry Festival'' ''Ueno'' None ''blossoms'',
      event_candidate ''Art Walk'' ''Ueno'' None ''galleries'']
   = map (flag_flea_market ascii_lower)
     [event_candidate ''Antique Market'' ''Nowhere 9'' None ''old things'',
      event_candidate ''Harbor Flea Market'' ''Pier 1'' (Some (71 / 2, 279 / 2)) ''antiques'',
      event_candidate ''Art Walk'' ''Ueno'' None ''galleries'',
      event_candidate ''Book Fair'' [] None ''paperbacks'',
      event_candidate ''Cherry Festival'' ''Ueno'' None ''blossoms'']"
  using events_flags [unfolded ascii_def, simplified]
  by (simp add: rank_events_def MARKET_MAX_RESULTS_def event_sort_key_candidate
      less_eq_prod_def ascii_def)

lemma events_world_fields:
  "GOOGLE_PLACES_API_KEY events_world = ascii ''places-key''"
  "str_lower events_world = ascii_lower"
  "geocode events_world = ueno_geocoder"
  by (simp_all add: events_world_def base_world_def)

lemma events_run:
  "fetch_places_via_gemini_and_process_images events_world centre_lat centre_lng EVENTS
   = Inr events_output"
  by (simp add: fetch_places_via_gemini_and_process_images_def events_candidates
    events_candidates_explicit events_world_fields events_ranked
    events_output_def events_ranked_candidates_def ascii_nonempty)

lemma events_output_names:
  "map p_name events_output = [ascii ''Antique Market'', ascii ''Harbor Flea Market'',
     ascii ''Art Walk'', ascii ''Book Fair'', ascii ''Cherry Festival'']"
  by (simp add: events_output_def events_ranked_candidates_def event_place_info_name_summary
      flag_flea_market_def event_candidate_def)

lemma events_output_flags:
  "flea_flagged events_world (events_output ! 1)"
  "\<not> flea_flagged events_world (events_output ! 2)"
  "\<not> flea_flagged events_world (events_output ! 3)"
  by (simp_all add: flea_flagged_def events_output_def events_ranked_candidates_def
      event_place_info_name_summary flag_flea_market_def event_candidate_def get_str_def
      events_world_fields events_flags)

text \<open>
  Claim C4 at six events, two of them flea markets: five are kept, the flea markets first.
\<close>

theorem C4_events_ordering_witness:
  "fetch_places_via_gemini_and_process_images events_world centre_lat centre_lng EVENTS
     = Inr events_output
   \<and> map p_name events_output = [ascii ''Antique Market'', ascii ''Harbor Flea Market'',
        ascii ''Art Walk'', ascii ''Book Fair'', ascii ''Cherry Festival'']
   \<and> flea_flagged events_world (events_output ! 0)
   \<and> flea_flagged events_world (events_output ! 1)
   \<and> \<not> flea_flagged events_world (events_output ! 2)
   \<and> p_name (events_output ! 2) \<le> p_name (events_output ! 3)"
proof -
  note inst = C4_events_ordering [OF events_run]
  have len: "length events_output = 5"
    by (simp add: events_output_def events_ranked_candidates_def)
  from inst have "0 < (1::nat) \<and> 1 < length events_output \<and> flea_flagged events_world (events_output ! 1)
      \<longrightarrow> flea_flagged events_world (events_output ! 0)"
    by blast
  with len events_output_flags have first: "flea_flagged events_world (events_output ! 0)"
    by simp
  from inst have "(2::nat) < 3 \<and> 3 < length events_output
      \<and> flea_flagged events_world (events_output ! 2) = flea_flagged events_world (events_output ! 3)
      \<longrightarrow> p_name (events_output ! 2) \<le> p_name (events_output ! 3)"
    by blast
  with len events_output_flags have "p_name (events_output ! 2) \<le> p_name (events_output ! 3)"
    by simp
  with first events_run events_output_names events_output_flags show ?thesis
    by blast
qed

subsection \<open>The execution stage on the events category\<close>

lemma on_exception_stored:
  assumes "storage_accepts w job_id"
  shows "on_exception w amb s3 job_id e
         = (failed_response job_id (str_of_exception e),
            s3(job_key job_id \<mapsto> failed_object job_id (utc_now amb) (str_of_exception e)))"
  using assms
  by (simp add: on_exception_def save_error_to_s3_def storage_accepts_def failed_response_def
      failed_object_def)

lemma get_str_simps: "get_str (Some t) dflt = t" "get_str None dflt = dflt"
  by (simp_all add: get_str_def)

lemma executor_events:
  assumes "fst (validate w)" and "request_of event lat lng EVENTS"
  shows "executor_lambda_handler w amb amb_end s3 event
     = (let job_id = get_str (ev_job_id event) (ascii ''unknown'')
        in case fetch_places_via_gemini_and_process_images w lat lng EVENTS of
             Inl e \<Rightarrow> Some (on_exception w amb_end s3 job_id e)
           | Inr processed_places \<Rightarrow>
               (case (if processed_places = [] then Inr (empty_document amb)
                      else generate_content_and_format w amb processed_places EVENTS
                             (get_str (ev_sub_type event) [])) of
                  Inl e \<Rightarrow> Some (on_exception w amb_end s3 job_id e)
                | Inr result \<Rightarrow>
                    (case save_result_to_s3 w amb_end s3 job_id result (ascii ''completed'') of
                       Inl e \<Rightarrow> Some (on_exception w amb_end s3 job_id e)
                     | Inr s3' \<Rightarrow> Some (completed_response job_id, s3'))))"
  using assms
  by (simp add: executor_lambda_handler_def request_of_def fetch_data_and_process_images_def
      get_str_simps Let_def empty_document_def completed_response_def
      split: sum.splits)

lemma places_key_set: "fst (validate w) \<Longrightarrow> GOOGLE_PLACES_API_KEY w \<noteq> []"
  by (auto simp add: validate_def Let_def split: if_splits)

lemma events_search_failed:
  assumes "fst (validate w)" and "fetch_places_via_gemini w lat lng EVENTS = Inl e"
  shows "fetch_places_via_gemini_and_process_images w lat lng EVENTS = Inl e"
  using assms places_key_set [of w]
  by (simp add: fetch_places_via_gemini_and_process_images_def)

lemma events_search_empty:
  assumes "fst (validate w)" and "fetch_places_via_gemini w lat lng EVENTS = Inr []"
  shows "fetch_places_via_gemini_and_process_images w lat lng EVENTS = Inr []"
  using assms places_key_set [of w]
  by (simp add: fetch_places_via_gemini_and_process_images_def)

lemma EMPTY_RESPONSE_message: "str_of_exception EMPTY_RESPONSE \<noteq> []"
  by (simp add: EMPTY_RESPONSE_def ascii_def)

lemma zero_results_run:
  assumes v: "fst (validate w)" and r: "request_of event lat lng EVENTS"
    and p: "storage_accepts w (get_str (ev_job_id event) (ascii ''unknown''))"
    and f: "fetch_places_via_gemini w lat lng EVENTS = Inr []"
  shows "executor_lambda_handler w amb amb_end s3 event
           = Some (completed_response (get_str (ev_job_id event) (ascii ''unknown'')),
                   s3(job_key (get_str (ev_job_id event) (ascii ''unknown'')) \<mapsto>
                      completed_object (get_str (ev_job_id event) (ascii ''unknown''))
                        (utc_now amb_end) (empty_document amb)))"
proof -
  from v f have "fetch_places_via_gemini_and_process_images w lat lng EVENTS = Inr []"
    by (rule events_search_empty)
  with p show ?thesis
    unfolding executor_events [OF v r]
    by (simp add: save_result_to_s3_def storage_accepts_def completed_object_def Let_def)
qed

text \<open>
  Claim C1, amended. For the events category, on a valid request in a configured deployment
  whose storage accepts the write: if the response of the generative search parses to zero
  results, the job is persisted in the completed state with an empty list of markers and no
  error message; if the response fails to parse, the job is persisted in the failed state
  with the parser's message; if the response text is empty, the job is persisted in the
  failed state with a fixed, non-empty message. In the last two cases it is not persisted as
  completed.
\<close>

theorem C1_zero_results_completed_empty:
  fixes w amb amb_end s3 event lat lng response
  defines "job_id \<equiv> get_str (ev_job_id event) (ascii ''unknown'')"
    and "cleaned \<equiv> strip_code_fence (response_text_of response)"
  assumes v: "fst (validate w)" and r: "request_of event lat lng EVENTS"
    and p: "storage_accepts w job_id"
    and g: "gemini_search_text w lat lng EVENTS = Inr response"
  shows "(response_text_of response \<noteq> [] \<and> cleaned \<noteq> [] \<and> json_loads_places w cleaned = Inr [] \<longrightarrow>
           executor_lambda_handler w amb amb_end s3 event
           = Some (completed_response job_id,
                   s3(job_key job_id \<mapsto>
                      completed_object job_id (utc_now amb_end) (empty_document amb))))
       \<and> (\<forall>e. response_text_of response \<noteq> [] \<and> cleaned \<noteq> [] \<and> json_loads_places w cleaned = Inl e \<longrightarrow>
           executor_lambda_handler w amb amb_end s3 event
           = Some (failed_response job_id (str_of_exception e),
                   s3(job_key job_id \<mapsto>
                      failed_object job_id (utc_now amb_end) (str_of_exception e))))
       \<and> (response_text_of response = [] \<longrightarrow>
           str_of_exception EMPTY_RESPONSE \<noteq> [] \<and>
           executor_lambda_handler w amb amb_end s3 event
           = Some (failed_response job_id (str_of_exception EMPTY_RESPONSE),
                   s3(job_key job_id \<mapsto>
                      failed_object job_id (utc_now amb_end) (str_of_exception EMPTY_RESPONSE))))"
proof (intro conjI allI impI)
  assume a: "response_text_of response \<noteq> [] \<and> cleaned \<noteq> [] \<and> json_loads_places w cleaned = Inr []"
  with g have "fetch_places_via_gemini w lat lng EVENTS = Inr []"
    by (simp add: fetch_places_via_gemini_def cleaned_def Let_def)
  then show "executor_lambda_handler w amb amb_end s3 event
           = Some (completed_response job_id,
                   s3(job_key job_id \<mapsto>
                      completed_object job_id (utc_now amb_end) (empty_document amb)))"
    unfolding job_id_def by (rule zero_results_run [OF v r p [unfolded job_id_def]])
next
  fix e
  assume a: "response_text_of response \<noteq> [] \<and> cleaned \<noteq> [] \<and> json_loads_places w cleaned = Inl e"
  with g have "fetch_places_via_gemini w lat lng EVENTS = Inl e"
    by (simp add: fetch_places_via_gemini_def cleaned_def Let_def)
  with v have "fetch_places_via_gemini_and_process_images w lat lng EVENTS = Inl e"
    by (rule events_search_failed)
  then show "executor_lambda_handler w amb amb_end s3 event
           = Some (failed_response job_id (str_of_exception e),
                   s3(job_key job_id \<mapsto>
                      failed_object job_id (utc_now amb_end) (str_of_exception e)))"
    unfolding executor_events [OF v r]
    by (simp add: job_id_def [symmetric] on_exception_stored [OF p] Let_def)
next
  assume a: "response_text_of response = []"
  show "str_of_exception EMPTY_RESPONSE \<noteq> []" by (rule EMPTY_RESPONSE_message)
  from a g have "fetch_places_via_gemini w lat lng EVENTS = Inl EMPTY_RESPONSE"
    by (simp add: fetch_places_via_gemini_def Let_def)
  with v have "fetch_places_via_gemini_and_process_images w lat lng EVENTS = Inl EMPTY_RESPONSE"
    by (rule events_search_failed)
  then show "executor_lambda_handler w amb amb_end s3 event
           = Some (failed_response job_id (str_of_exception EMPTY_RESPONSE),
                   s3(job_key job_id \<mapsto>
                      failed_object job_id (utc_now amb_end) (str_of_exception EMPTY_RESPONSE)))"
    unfolding executor_events [OF v r]
    by (simp add: job_id_def [symmetric] on_exception_stored [OF p] Let_def)
qed

lemma base_world_valid: "fst (validate base_world)"
  by (simp add: validate_def base_world_def ascii_nonempty)

lemma sample_worlds_valid:
  "fst (validate empty_array_world)" "fst (validate blank_world)" "fst (validate garbled_world)"
  using base_world_valid
  by (simp_all add: validate_def empty_array_world_def blank_world_def garbled_world_def)

lemma sample_worlds_accept:
  "storage_accepts empty_array_world job_id" "storage_accepts blank_world job_id"
  "storage_accepts garbled_world job_id"
  by (simp_all add: storage_accepts_def empty_array_world_def blank_world_def garbled_world_def
      base_world_def)

lemma events_request_valid: "request_of events_request centre_lat centre_lng EVENTS"
  by (simp add: request_of_def events_request_def centre_lat_def centre_lng_def EVENTS_def)

lemma empty_array_search:
  "fetch_places_via_gemini empty_array_world centre_lat centre_lng EVENTS = Inr []"
  using strip_bracketed [of "[]"] strip_code_fence_bracketed [of "[]"]
  by (simp add: fetch_places_via_gemini_def empty_array_world_def response_text_of_def
      truthy_str_def get_str_simps Let_def)

text \<open>
  Claim C1, as stated, fails: when the generative search answers with the empty array "[]",
  the execution stage writes the job as completed, with an empty list of markers and no
  error.
\<close>

theorem C1_empty_array_counterexample:
  "(case executor_lambda_handler empty_array_world sample_ambient other_ambient Map.empty
           events_request of
      None \<Rightarrow> False
    | Some (response, s3) \<Rightarrow>
        er_status response = ascii ''completed'' \<and> er_error response = None \<and>
        (case s3 (job_key (ascii ''job_1'')) of
           None \<Rightarrow> False
         | Some obj \<Rightarrow>
             jo_status obj = Some (ascii ''completed'') \<and> jo_error obj = None \<and>
             map_option markers (jo_result obj) = Some []))"
  using zero_results_run [OF sample_worlds_valid(1) events_request_valid _ empty_array_search,
      of sample_ambient other_ambient Map.empty]
  by (simp add: sample_worlds_accept events_request_def get_str_simps completed_response_def
      completed_object_def empty_document_def)

lemma sample_search_texts:
  "gemini_search_text empty_array_world centre_lat centre_lng EVENTS = Inr (Some [91, 93])"
  "gemini_search_text blank_world centre_lat centre_lng EVENTS = Inr (Some (ascii '' ''))"
  "gemini_search_text garbled_world centre_lat centre_lng EVENTS
   = Inr (Some (ascii ''Sorry, nothing found.''))"
  by (simp_all add: empty_array_world_def blank_world_def garbled_world_def base_world_def)

lemma sample_response_texts:
  "response_text_of (Some [91, 93]) = [91, 93]"
  "strip_code_fence [91, 93] = [91, 93]"
  "response_text_of (Some (ascii '' '')) = []"
  "response_text_of (Some (ascii ''Sorry, nothing found.'')) = ascii ''Sorry, nothing found.''"
  "strip_code_fence (ascii ''Sorry, nothing found.'') = ascii ''Sorry, nothing found.''"
  using strip_bracketed [of "[]"] strip_code_fence_bracketed [of "[]"]
  by (simp_all add: response_text_of_def truthy_str_def get_str_simps strip_def isspace_def
      strip_code_fence_def startswith_def endswith_def ascii_def)

text \<open>
  Claim C1, amended, at three stubs of the generative search: the empty array, a text that is
  not JSON, and a blank text.
\<close>

theorem C1_zero_results_completed_empty_witness:
  "executor_lambda_handler empty_array_world sample_ambient other_ambient Map.empty events_request
     = Some (completed_response (ascii ''job_1''),
             [job_key (ascii ''job_1'') \<mapsto>
                completed_object (ascii ''job_1'') (utc_now other_ambient)
                  (empty_document sample_ambient)])
   \<and> executor_lambda_handler garbled_world sample_ambient other_ambient Map.empty events_request
     = Some (failed_response (ascii ''job_1'') (str_of_exception not_json),
             [job_key (ascii ''job_1'') \<mapsto>
                failed_object (ascii ''job_1'') (utc_now other_ambient)
                  (str_of_exception not_json)])
   \<and> executor_lambda_handler blank_world sample_ambient other_ambient Map.empty events_request
     = Some (failed_response (ascii ''job_1'') (str_of_exception EMPTY_RESPONSE),
             [job_key (ascii ''job_1'') \<mapsto>
                failed_object (ascii ''job_1'') (utc_now other_ambient)
                  (str_of_exception EMPTY_RESPONSE)])"
proof -
  have j: "get_str (ev_job_id events_request) (ascii ''unknown'') = ascii ''job_1''"
    by (simp add: events_request_def get_str_simps)
  have parsed: "json_loads_places empty_array_world [91, 93] = Inr []"
    "json_loads_places garbled_world (ascii ''Sorry, nothing found.'') = Inl not_json"
    by (simp_all add: empty_array_world_def garbled_world_def base_world_def)
  have nonempty: "ascii ''Sorry, nothing found.'' \<noteq> []"
    by (simp add: ascii_def)
  note a = C1_zero_results_completed_empty [OF sample_worlds_valid(1) events_request_valid
      _ sample_search_texts(1), of sample_ambient other_ambient Map.empty]
  note b = C1_zero_results_completed_empty [OF sample_worlds_valid(3) events_request_valid
      _ sample_search_texts(3), of sample_ambient other_ambient Map.empty]
  note c = C1_zero_results_completed_empty [OF sample_worlds_valid(2) events_request_valid
      _ sample_search_texts(2), of sample_ambient other_ambient Map.empty]
  from a have "executor_lambda_handler empty_array_world sample_ambient other_ambient Map.empty
      events_request
     = Some (completed_response (ascii ''job_1''),
             [job_key (ascii ''job_1'') \<mapsto>
                completed_object (ascii ''job_1'') (utc_now other_ambient)
                  (empty_document sample_ambient)])"
    by (simp add: j sample_worlds_accept sample_response_texts parsed)
  moreover from b have "executor_lambda_handler garbled_world sample_ambient other_ambient
      Map.empty events_request
     = Some (failed_response (ascii ''job_1'') (str_of_exception not_json),
             [job_key (ascii ''job_1'') \<mapsto>
                failed_object (ascii ''job_1'') (utc_now other_ambient)
                  (str_of_exception not_json)])"
    by (simp add: j sample_worlds_accept sample_response_texts parsed nonempty)
  moreover from c have "executor_lambda_handler blank_world sample_ambient other_ambient
      Map.empty events_request
     = Some (failed_response (ascii ''job_1'') (str_of_exception EMPTY_RESPONSE),
             [job_key (ascii ''job_1'') \<mapsto>
                failed_object (ascii ''job_1'') (utc_now other_ambient)
                  (str_of_exception EMPTY_RESPONSE)])"
    by (simp add: j sample_worlds_accept sample_response_texts)
  ultimately show ?thesis by blast
qed

subsection \<open>Coordinates of the candidates\<close>

lemma cons_result_Inr:
  "cons_result x r = Inr ys \<longleftrightarrow> (\<exists>xs. r = Inr xs \<and> ys = x # xs)"
  by (cases r) (auto simp add: cons_result_def)

lemma event_place_info_chain:
  "(p_lat (event_place_info w lat lng c), p_lng (event_place_info w lat lng c))
   = (Some (fst (spec_coordinate_chain (supplied_coordinates c)
                   (geocode_address w (gp_formatted_address c)) (lat, lng))),
      Some (snd (spec_coordinate_chain (supplied_coordinates c)
                   (geocode_address w (gp_formatted_address c)) (lat, lng))))"
proof (cases "gp_lat c \<noteq> None \<and> gp_lng c \<noteq> None")
  case True
  then show ?thesis
    by (auto simp add: event_place_info_def spec_coordinate_chain_def supplied_coordinates_def)
next
  case False
  then have s: "supplied_coordinates c = None"
    by (auto simp add: supplied_coordinates_def split: option.splits)
  show ?thesis
  proof (cases "gp_formatted_address c = []")
    case True
    with False s show ?thesis
      by (auto simp add: event_place_info_def spec_coordinate_chain_def geocode_address_def)
  next
    case a: False
    with False s show ?thesis
      by (cases "geocode_address w (gp_formatted_address c)")
        (auto simp add: event_place_info_def spec_coordinate_chain_def)
  qed
qed

lemma event_place_info_has_coordinates: "has_coordinates (event_place_info w lat lng c)"
  using event_place_info_chain [of w lat lng c] by (simp add: has_coordinates_def)

lemma truthy_str_iff: "truthy_str s \<longleftrightarrow> (\<exists>t. s = Some t \<and> t \<noteq> [])"
  by (cases s) (simp_all add: truthy_str_def)

lemma record_coordinates_cases:
  "has_coordinates pl \<or> record_lacks_number w field_list pl"
  if "place_details w (p_place_id pl) field_list = Inr reply" "dr_status reply = OK"
    "coordinates_of pl = record_coordinates (d_location (dr_result reply)) (lat, lng)"
proof (cases "d_location (dr_result reply)")
  case None
  with that(3) show ?thesis
    by (simp add: record_coordinates_def coordinates_of_def has_coordinates_def)
next
  case (Some c)
  obtain la lo where c: "c = (la, lo)" by (cases c)
  show ?thesis
  proof (cases "la = None \<or> lo = None")
    case True
    with that Some c have "record_lacks_number w field_list pl"
      unfolding record_lacks_number_def record_coordinates_def by auto
    then show ?thesis ..
  next
    case False
    with that(3) Some c show ?thesis
      by (auto simp add: record_coordinates_def coordinates_of_def has_coordinates_def)
  qed
qed

lemma attraction_place_infos_coordinates:
  "attraction_place_infos w lat lng places = Inr out \<Longrightarrow>
   map coordinates_of out = List.map_filter (attraction_coordinates w lat lng) places
   \<and> (\<forall>pl \<in> set out. has_coordinates pl \<or> record_lacks_number w ATTRACTION_FIELDS pl)"
proof (induction places arbitrary: out)
  case Nil
  then show ?case by (simp add: map_filter_simps)
next
  case (Cons c places)
  let ?pid = "find_place_by_name_and_address w (gp_name c) (gp_formatted_address c) lat lng"
  show ?case
  proof (cases "truthy_str ?pid")
    case False
    then have centre: "attraction_coordinates w lat lng c = Some (Some lat, Some lng)"
      by (auto simp add: attraction_coordinates_def truthy_str_def split: option.splits)
    from False Cons.prems obtain pl rest where
      rest: "attraction_place_infos w lat lng places = Inr rest" and out: "out = pl # rest"
      and pl: "coordinates_of pl = (Some lat, Some lng)"
      by (auto simp add: Let_def cons_result_Inr coordinates_of_def)
    from pl have "has_coordinates pl"
      by (simp add: coordinates_of_def has_coordinates_def)
    with Cons.IH [OF rest] out pl centre show ?thesis
      by (simp add: map_filter_simps)
  next
    case True
    then obtain t where t: "?pid = Some t" "t \<noteq> []"
      by (auto simp add: truthy_str_iff)
    show ?thesis
    proof (cases "place_details w t ATTRACTION_FIELDS")
      case (Inl e)
      with True t Cons.prems show ?thesis by (simp add: Let_def get_str_simps)
    next
      case (Inr reply)
      show ?thesis
      proof (cases "dr_status reply = OK")
        case False
        with t Inr have dropped: "attraction_coordinates w lat lng c = None"
          by (simp add: attraction_coordinates_def)
        from False True t Inr Cons.prems have "attraction_place_infos w lat lng places = Inr out"
          by (simp add: Let_def get_str_simps)
        from Cons.IH [OF this] dropped show ?thesis
          by (simp add: map_filter_simps)
      next
        case ok: True
        with t Inr have found: "attraction_coordinates w lat lng c
            = Some (record_coordinates (d_location (dr_result reply)) (lat, lng))"
          by (simp add: attraction_coordinates_def)
        from ok True t Inr Cons.prems obtain pl rest where
          rest: "attraction_place_infos w lat lng places = Inr rest" and out: "out = pl # rest"
          and pid: "p_place_id pl = t"
          and co: "coordinates_of pl = record_coordinates (d_location (dr_result reply)) (lat, lng)"
          by (auto simp add: Let_def cons_result_Inr get_str_simps coordinates_of_def
              record_coordinates_def split: option.splits prod.splits)
        from Inr pid have "place_details w (p_place_id pl) ATTRACTION_FIELDS = Inr reply"
          by simp
        then have "has_coordinates pl \<or> record_lacks_number w ATTRACTION_FIELDS pl"
          using ok co by (rule record_coordinates_cases)
        with Cons.IH [OF rest] out co found show ?thesis
          by (simp add: map_filter_simps)
      qed
    qed
  qed
qed

lemma from_record_cases:
  "from_record w field_list lat lng pl \<Longrightarrow>
   has_coordinates pl \<or> record_lacks_number w field_list pl"
proof -
  assume "from_record w field_list lat lng pl"
  then obtain reply where "place_details w (p_place_id pl) field_list = Inr reply"
    and "dr_status reply = OK"
    and "coordinates_of pl = record_coordinates (d_location (dr_result reply)) (lat, lng)"
    unfolding from_record_def by blast
  then show ?thesis by (rule record_coordinates_cases)
qed

lemma place_infos_coordinates:
  "place_infos w main_type lat lng all_places = Inr out \<Longrightarrow>
   \<forall>pl \<in> set out. from_record w (details_fields main_type) lat lng pl"
proof (induction all_places arbitrary: out)
  case Nil
  then show ?case by simp
next
  case (Cons c all_places)
  show ?case
  proof (cases "truthy_str (nr_place_id c)")
    case False
    with Cons.prems have "place_infos w main_type lat lng all_places = Inr out" by simp
    then show ?thesis by (rule Cons.IH)
  next
    case True
    show ?thesis
    proof (cases "place_details w (get_str (nr_place_id c) []) (details_fields main_type)")
      case (Inl e)
      with True Cons.prems show ?thesis by simp
    next
      case (Inr reply)
      show ?thesis
      proof (cases "dr_status reply = OK")
        case False
        with True Inr Cons.prems have "place_infos w main_type lat lng all_places = Inr out"
          by simp
        then show ?thesis by (rule Cons.IH)
      next
        case ok: True
        with True Inr Cons.prems obtain rest where
          rest: "place_infos w main_type lat lng all_places = Inr rest"
          and out: "out = place_info_of_details main_type lat lng (get_str (nr_place_id c) [])
                            (dr_result reply) # rest"
          by (auto simp add: cons_result_Inr)
        have "from_record w (details_fields main_type) lat lng
                (place_info_of_details main_type lat lng (get_str (nr_place_id c) []) (dr_result reply))"
          using Inr ok
          by (cases "d_location (dr_result reply)")
            (auto simp add: from_record_def place_info_of_details_def coordinates_of_def
              record_coordinates_def)
        with Cons.IH [OF rest] out show ?thesis by simp
      qed
    qed
  qed
qed

lemma with_uploaded_image_from_record:
  "from_record w field_list lat lng pl \<Longrightarrow> from_record w field_list lat lng (with_uploaded_image w pl)"
  by (simp add: from_record_def with_uploaded_image_def coordinates_of_def)

lemma tower_json_plain:
  "tower_json \<noteq> []" "strip tower_json = tower_json" "strip_code_fence tower_json = tower_json"
  unfolding tower_json_def
  by (simp_all only: strip_bracketed strip_code_fence_bracketed list.distinct not_False_eq_True)

lemma tower_world_fields:
  "GOOGLE_PLACES_API_KEY tower_world = ascii ''places-key''"
  "gemini_search_text tower_world lat lng mt = Inr (Some tower_json)"
  "json_loads_places tower_world tower_json = Inr [tower_item]"
  "text_search tower_world q loc = Inr \<lparr> sr_status = ascii ''ZERO_RESULTS'', sr_results = [] \<rparr>"
  "geocode tower_world = ueno_geocoder"
  by (simp_all add: tower_world_def base_world_def)

lemma tower_candidates:
  "fetch_places_via_gemini tower_world centre_lat centre_lng ATTRACTIONS
   = Inr [\<lparr> gp_name = ascii ''Old Tower'', gp_formatted_address = ascii ''Ueno'',
            gp_summary = ascii ''a tower'', gp_rating = 0, gp_website = [],
            gp_lat = None, gp_lng = None, gp_is_flea_market = None \<rparr>]"
  by (simp add: fetch_places_via_gemini_def tower_world_fields response_text_of_def
      truthy_str_def get_str_simps tower_json_plain Let_def gemini_item_to_place_def
      tower_item_def ATTRACTIONS_def EVENTS_def ascii_nonempty)

lemma tower_run:
  "fetch_data_and_process_images tower_world centre_lat centre_lng ATTRACTIONS [] []
   = Some (Inr [tower_output])"
  by (simp add: fetch_data_and_process_images_def fetch_places_via_gemini_and_process_images_def
      tower_candidates tower_world_fields ascii_nonempty ATTRACTIONS_def [symmetric]
      ATTRACTION_MAX_RESULTS_def find_place_by_name_and_address_def OK_def truthy_str_def
      cons_result_def tower_output_def Let_def)
    (simp add: ATTRACTIONS_def EVENTS_def ascii_def)

lemma tower_geocoded:
  "geocode_address tower_world (ascii ''Ueno'') = Some (143 / 4, 559 / 4)"
  by (simp add: geocode_address_def tower_world_fields ueno_geocoder_def OK_def ascii_nonempty)

text \<open>
  Claim C7, as stated, fails for the attractions, which are candidates of the generative
  search too: a candidate for which no place record is found gets the search centre, although
  geocoding its address, the second step of the chain, would succeed.
\<close>

theorem C7_attraction_skips_geocoding_counterexample:
  "fetch_data_and_process_images tower_world centre_lat centre_lng ATTRACTIONS [] []
     = Some (Inr [tower_output])
   \<and> geocode_address tower_world (p_formatted_address tower_output) = Some (143 / 4, 559 / 4)
   \<and> (p_lat tower_output, p_lng tower_output) = (Some centre_lat, Some centre_lng)
   \<and> (p_lat tower_output, p_lng tower_output)
       \<noteq> (Some (fst (spec_coordinate_chain None
                        (geocode_address tower_world (p_formatted_address tower_output))
                        (centre_lat, centre_lng))),
            Some (snd (spec_coordinate_chain None
                        (geocode_address tower_world (p_formatted_address tower_output))
                        (centre_lat, centre_lng))))"
  using tower_run tower_geocoded
  by (simp add: tower_output_def spec_coordinate_chain_def centre_lat_def)

text \<open>
  Claim C7, amended. A candidate of the events category has a latitude and a longitude,
  resolved by the chain, in order: the coordinates the generative response supplies (both of
  them), else the geocoded address, else the search centre. A candidate of the attractions
  category, which the generative search returns too, does not go through this chain: it has
  the search centre when the text search by name and address finds no place identifier (its
  address is never geocoded); when an identifier is found and the place record is retrieved,
  it has what the record's location holds, and the search centre when the record has no
  location; a candidate whose record is answered with another status than OK is left out. A
  candidate of the structured search has what the location of its place record holds, and
  the search centre when the record has no location. A candidate of the attractions or of
  the structured search lacks a coordinate only when the location of its place record lacks
  that number, which the source stores unchecked.
\<close>

theorem C7_coordinates_resolved:
  assumes "fetch_data_and_process_images w lat lng main_type sub_type budget = Some (Inr out)"
  shows "(main_type = EVENTS \<longrightarrow>
          (\<forall>pl \<in> set out. has_coordinates pl)
          \<and> (\<exists>candidates. fetch_places_via_gemini w lat lng EVENTS = Inr candidates
             \<and> out = map (event_place_info w lat lng) (rank_events (str_lower w) candidates)
             \<and> (\<forall>c \<in> set (rank_events (str_lower w) candidates).
                   (p_lat (event_place_info w lat lng c), p_lng (event_place_info w lat lng c))
                   = (Some (fst (spec_coordinate_chain (supplied_coordinates c)
                                   (geocode_address w (gp_formatted_address c)) (lat, lng))),
                      Some (snd (spec_coordinate_chain (supplied_coordinates c)
                                   (geocode_address w (gp_formatted_address c)) (lat, lng)))))))
     \<and> (main_type = ATTRACTIONS \<longrightarrow>
          (\<exists>candidates. fetch_places_via_gemini w lat lng ATTRACTIONS = Inr candidates
             \<and> map coordinates_of out
                 = List.map_filter (attraction_coordinates w lat lng)
                     (take ATTRACTION_MAX_RESULTS candidates))
          \<and> (\<forall>pl \<in> set out.
                 has_coordinates pl \<or> record_lacks_number w ATTRACTION_FIELDS pl))
     \<and> (main_type \<noteq> EVENTS \<and> main_type \<noteq> ATTRACTIONS \<longrightarrow>
          (\<forall>pl \<in> set out.
             from_record w (details_fields main_type) lat lng pl
             \<and> (has_coordinates pl \<or> record_lacks_number w (details_fields main_type) pl)))"
proof -
  have ne: "ATTRACTIONS \<noteq> EVENTS"
    by (simp add: ATTRACTIONS_def EVENTS_def)
  have ev: "(\<forall>pl \<in> set out. has_coordinates pl)
          \<and> (\<exists>candidates. fetch_places_via_gemini w lat lng EVENTS = Inr candidates
             \<and> out = map (event_place_info w lat lng) (rank_events (str_lower w) candidates)
             \<and> (\<forall>c \<in> set (rank_events (str_lower w) candidates).
                   (p_lat (event_place_info w lat lng c), p_lng (event_place_info w lat lng c))
                   = (Some (fst (spec_coordinate_chain (supplied_coordinates c)
                                   (geocode_address w (gp_formatted_address c)) (lat, lng))),
                      Some (snd (spec_coordinate_chain (supplied_coordinates c)
                                   (geocode_address w (gp_formatted_address c)) (lat, lng))))))"
    if m: "main_type = EVENTS"
  proof -
    from assms m have "fetch_places_via_gemini_and_process_images w lat lng EVENTS = Inr out"
      by (simp add: fetch_data_and_process_images_def)
    then obtain candidates where c: "fetch_places_via_gemini w lat lng EVENTS = Inr candidates"
      and o: "out = map (event_place_info w lat lng) (rank_events (str_lower w) candidates)"
      by (rule events_run_shape)
    from o have "\<forall>pl \<in> set out. has_coordinates pl"
      using event_place_info_has_coordinates by auto
    with c o show ?thesis
      using event_place_info_chain by blast
  qed
  have at: "(\<exists>candidates. fetch_places_via_gemini w lat lng ATTRACTIONS = Inr candidates
             \<and> map coordinates_of out
                 = List.map_filter (attraction_coordinates w lat lng)
                     (take ATTRACTION_MAX_RESULTS candidates))
          \<and> (\<forall>pl \<in> set out.
                 has_coordinates pl \<or> record_lacks_number w ATTRACTION_FIELDS pl)"
    if m: "main_type = ATTRACTIONS"
  proof -
    from assms m have "fetch_places_via_gemini_and_process_images w lat lng ATTRACTIONS = Inr out"
      by (simp add: fetch_data_and_process_images_def)
    then obtain candidates where c: "fetch_places_via_gemini w lat lng ATTRACTIONS = Inr candidates"
      and o: "attraction_place_infos w lat lng (take ATTRACTION_MAX_RESULTS candidates) = Inr out"
      using ne by (auto simp add: fetch_places_via_gemini_and_process_images_def Let_def
          split: if_splits sum.splits)
    from attraction_place_infos_coordinates [OF o] c show ?thesis
      by blast
  qed
  have st: "\<forall>pl \<in> set out.
             from_record w (details_fields main_type) lat lng pl
             \<and> (has_coordinates pl \<or> record_lacks_number w (details_fields main_type) pl)"
    if m: "main_type \<noteq> EVENTS \<and> main_type \<noteq> ATTRACTIONS"
  proof -
    from assms m obtain ranked processed where
      "place_infos w main_type lat lng ranked = Inr processed"
      and out: "out = map (with_uploaded_image w) processed"
      by (auto simp add: fetch_data_and_process_images_def Let_def
          split: if_splits option.splits sum.splits)
    then have "\<forall>pl \<in> set processed. from_record w (details_fields main_type) lat lng pl"
      using place_infos_coordinates by blast
    with out have "\<forall>pl \<in> set out. from_record w (details_fields main_type) lat lng pl"
      by (auto intro: with_uploaded_image_from_record)
    then show ?thesis
      using from_record_cases by blast
  qed
  from ev at st show ?thesis by blast
qed

subsection \<open>Ranking of the food category\<close>

lemma rank_food_sorted:
  "sorted_wrt (\<lambda>a b. nearby_rating b \<le> nearby_rating a) (rank_food all_places)"
  unfolding rank_food_def by (rule sorted_wrt_take [OF sorted_reverse_descending])

lemma rank_food_length:
  "length (rank_food all_places) = min FOOD_MAX_RESULTS (length all_places)"
  by (simp add: rank_food_def length_sorted_reverse min.commute)

lemma rank_food_subset: "set (rank_food all_places) \<subseteq> set all_places"
  using set_take_subset [of FOOD_MAX_RESULTS "sorted_reverse nearby_rating all_places"]
  by (simp add: rank_food_def set_sorted_reverse)

lemma rank_food_best:
  "\<forall>a \<in> set (rank_food all_places).
     \<forall>b \<in># mset all_places - mset (rank_food all_places). nearby_rating b \<le> nearby_rating a"
proof -
  let ?s = "sorted_reverse nearby_rating all_places"
  have "mset all_places - mset (rank_food all_places) = mset (drop FOOD_MAX_RESULTS ?s)"
    using mset_take_drop [of ?s FOOD_MAX_RESULTS]
    by (simp only: rank_food_def mset_sorted_reverse)
  then show ?thesis
    using sorted_wrt_take_drop [OF sorted_reverse_descending]
    by (simp add: rank_food_def)
qed

lemma place_infos_all_ok:
  "\<forall>c \<in> set cs. details_ok w main_type c \<Longrightarrow>
   \<exists>processed. place_infos w main_type lat lng cs = Inr processed
      \<and> map p_name processed = map (details_name w main_type) cs"
proof (induction cs)
  case Nil
  then show ?case by simp
next
  case (Cons c cs)
  then obtain rest where rest: "place_infos w main_type lat lng cs = Inr rest"
    and names: "map p_name rest = map (details_name w main_type) cs"
    by auto
  from Cons.prems have ok: "details_ok w main_type c" by simp
  then obtain reply where
    reply: "place_details w (get_str (nr_place_id c) []) (details_fields main_type) = Inr reply"
    and status: "dr_status reply = OK" and pid: "truthy_str (nr_place_id c)"
    by (auto simp add: details_ok_def split: sum.splits)
  with rest names show ?case
    by (simp add: cons_result_def details_name_def place_info_of_details_def)
qed

lemma food_fetch:
  assumes "GOOGLE_PLACES_API_KEY w \<noteq> []"
    and "collect_pages w (search_params lat lng FOOD sub_type budget) (Some FOOD_MAX_RESULTS)
           [] None = Some (Inr all_places)"
  shows "fetch_data_and_process_images w lat lng FOOD sub_type budget
         = Some (case place_infos w FOOD lat lng (rank_food all_places) of
                   Inl e \<Rightarrow> Inl e
                 | Inr processed \<Rightarrow> Inr (map (with_uploaded_image w) processed))"
proof -
  have "FOOD \<noteq> ATTRACTIONS" "FOOD \<noteq> EVENTS"
    by (simp_all add: FOOD_def ATTRACTIONS_def EVENTS_def)
  moreover have "rank_food [] = []" by (simp add: rank_food_def sorted_reverse_def)
  ultimately show ?thesis
    using assms
    by (cases "all_places = []")
      (auto simp add: fetch_data_and_process_images_def get_max_results_def Let_def
        split: sum.splits)
qed

lemma executor_on_request:
  assumes "fst (validate w)" and "request_of event lat lng main_type"
  shows "executor_lambda_handler w amb amb_end s3 event
     = (let job_id = get_str (ev_job_id event) (ascii ''unknown'')
        in case fetch_data_and_process_images w lat lng main_type
                  (get_str (ev_sub_type event) []) (get_str (ev_budget event) []) of
             None \<Rightarrow> None
           | Some (Inl e) \<Rightarrow> Some (on_exception w amb_end s3 job_id e)
           | Some (Inr processed_places) \<Rightarrow>
               (case (if processed_places = [] then Inr (empty_document amb)
                      else generate_content_and_format w amb processed_places main_type
                             (get_str (ev_sub_type event) [])) of
                  Inl e \<Rightarrow> Some (on_exception w amb_end s3 job_id e)
                | Inr result \<Rightarrow>
                    (case save_result_to_s3 w amb_end s3 job_id result (ascii ''completed'') of
                       Inl e \<Rightarrow> Some (on_exception w amb_end s3 job_id e)
                     | Inr s3' \<Rightarrow> Some (completed_response job_id, s3'))))"
  using assms
  by (simp add: executor_lambda_handler_def request_of_def
      get_str_simps Let_def empty_document_def completed_response_def
      split: sum.splits option.splits)

lemma map_enumerate_snd: "map (\<lambda>x. g (snd x)) (enumerate n xs) = map g xs"
  by (induction xs arbitrary: n) simp_all

lemma food_summaries:
  assumes "summaries_ok w"
  shows "\<exists>doc. generate_content_and_format w amb processed FOOD sub_type = Inr doc
     \<and> map (\<lambda>m. title (marker_content m)) (markers doc) = map p_name processed"
proof -
  have ne: "FOOD \<noteq> ATTRACTIONS" "FOOD \<noteq> EVENTS"
    by (simp_all add: FOOD_def ATTRACTIONS_def EVENTS_def)
  let ?data = "map (place_data_of True) processed"
  from assms obtain response summaries where
    "gemini_summary_text w True ?data = Inr response"
    and "json_loads_summaries w (strip_code_fence (strip response)) = Inr summaries"
    unfolding summaries_ok_def
    by (metis (no_types, lifting) old.sum.simps(5) old.sum.simps(6) sum.exhaust_sel sum.collapse(1) sum.collapse(2))
  then show ?thesis
    using ne
    by (simp add: generate_content_and_format_def Let_def format_places_to_markers_def
        place_to_marker_def split_def comp_def map_enumerate_snd)
qed

lemma with_uploaded_image_name: "p_name (with_uploaded_image w pl) = p_name pl"
  by (simp add: with_uploaded_image_def)

lemma food_job_completed:
  assumes v: "fst (validate w)" and r: "request_of event lat lng FOOD"
    and p: "storage_accepts w (get_str (ev_job_id event) (ascii ''unknown''))"
    and c: "collect_pages w (search_params lat lng FOOD (get_str (ev_sub_type event) [])
              (get_str (ev_budget event) [])) (Some FOOD_MAX_RESULTS) [] None
            = Some (Inr all_places)"
    and n: "FOOD_MAX_RESULTS \<le> length all_places"
    and d: "\<forall>c \<in> set all_places. details_ok w FOOD c"
    and s: "summaries_ok w"
  shows "\<exists>doc. executor_lambda_handler w amb amb_end s3 event
            = Some (completed_response (get_str (ev_job_id event) (ascii ''unknown'')),
                    s3(job_key (get_str (ev_job_id event) (ascii ''unknown'')) \<mapsto>
                       completed_object (get_str (ev_job_id event) (ascii ''unknown''))
                         (utc_now amb_end) doc))
          \<and> length (markers doc) = FOOD_MAX_RESULTS
          \<and> map (\<lambda>m. title (marker_content m)) (markers doc)
              = map (details_name w FOOD) (rank_food all_places)"
proof -
  let ?ranked = "rank_food all_places"
  from d rank_food_subset have "\<forall>c \<in> set ?ranked. details_ok w FOOD c" by blast
  then obtain processed where pi: "place_infos w FOOD lat lng ?ranked = Inr processed"
    and names: "map p_name processed = map (details_name w FOOD) ?ranked"
    using place_infos_all_ok by blast
  let ?out = "map (with_uploaded_image w) processed"
  have fetch: "fetch_data_and_process_images w lat lng FOOD (get_str (ev_sub_type event) [])
                 (get_str (ev_budget event) []) = Some (Inr ?out)"
    using food_fetch [OF places_key_set [OF v] c] pi by simp
  have out_names: "map p_name ?out = map (details_name w FOOD) ?ranked"
    using names by (simp add: comp_def with_uploaded_image_name)
  from n have len: "length ?ranked = FOOD_MAX_RESULTS"
    by (simp add: rank_food_length)
  with out_names have "length ?out = FOOD_MAX_RESULTS"
    by (metis length_map)
  then have nonempty: "?out \<noteq> []"
    by (auto simp add: FOOD_MAX_RESULTS_def)
  from food_summaries [OF s] obtain doc where
    doc: "generate_content_and_format w amb ?out FOOD (get_str (ev_sub_type event) []) = Inr doc"
    and titles: "map (\<lambda>m. title (marker_content m)) (markers doc) = map p_name ?out"
    by blast
  from titles out_names len have "length (markers doc) = FOOD_MAX_RESULTS"
    by (metis length_map)
  moreover from titles out_names
  have "map (\<lambda>m. title (marker_content m)) (markers doc) = map (details_name w FOOD) ?ranked"
    by simp
  moreover have "executor_lambda_handler w amb amb_end s3 event
            = Some (completed_response (get_str (ev_job_id event) (ascii ''unknown'')),
                    s3(job_key (get_str (ev_job_id event) (ascii ''unknown'')) \<mapsto>
                       completed_object (get_str (ev_job_id event) (ascii ''unknown''))
                         (utc_now amb_end) doc))"
    unfolding executor_on_request [OF v r]
    using p nonempty
    by (simp add: fetch doc save_result_to_s3_def storage_accepts_def completed_object_def Let_def)
  ultimately show ?thesis by blast
qed

text \<open>
  Claim C5. For the food category, once the paged collection has returned its candidates, the
  rest of the pipeline sees them sorted by descending rating and truncated to FOOD_MAX_RESULTS
  (5): the ranked list is in descending order of rating, holds the smaller of 5 and the number
  collected, and no candidate left out is rated above a kept one. In particular, when at least
  5 candidates (12 in the scenario) are collected, every detail lookup succeeds and the
  narrative generation succeeds, the job is persisted as completed with exactly 5 markers, in
  the order of the ranked candidates, that is by descending original rating.
\<close>

theorem C5_food_ranking:
  fixes w amb amb_end s3 event lat lng all_places
  defines "job_id \<equiv> get_str (ev_job_id event) (ascii ''unknown'')"
    and "sub_type \<equiv> get_str (ev_sub_type event) []"
    and "budget \<equiv> get_str (ev_budget event) []"
  assumes v: "fst (validate w)" and r: "request_of event lat lng FOOD"
    and p: "storage_accepts w job_id"
    and c: "collect_pages w (search_params lat lng FOOD sub_type budget) (Some FOOD_MAX_RESULTS)
              [] None = Some (Inr all_places)"
  shows "fetch_data_and_process_images w lat lng FOOD sub_type budget
           = Some (case place_infos w FOOD lat lng (rank_food all_places) of
                     Inl e \<Rightarrow> Inl e
                   | Inr processed \<Rightarrow> Inr (map (with_uploaded_image w) processed))
       \<and> rank_food all_places = take FOOD_MAX_RESULTS (sorted_reverse nearby_rating all_places)
       \<and> FOOD_MAX_RESULTS = 5
       \<and> sorted_wrt (\<lambda>a b. nearby_rating b \<le> nearby_rating a) (rank_food all_places)
       \<and> length (rank_food all_places) = min FOOD_MAX_RESULTS (length all_places)
       \<and> (\<forall>a \<in> set (rank_food all_places).
             a \<in> set all_places \<and>
             (\<forall>b \<in># mset all_places - mset (rank_food all_places).
                nearby_rating b \<le> nearby_rating a))
       \<and> (FOOD_MAX_RESULTS \<le> length all_places
            \<and> (\<forall>c \<in> set all_places. details_ok w FOOD c) \<and> summaries_ok w \<longrightarrow>
            (\<exists>doc. executor_lambda_handler w amb amb_end s3 event
                      = Some (completed_response job_id,
                              s3(job_key job_id \<mapsto>
                                 completed_object job_id (utc_now amb_end) doc))
                 \<and> length (markers doc) = FOOD_MAX_RESULTS
                 \<and> map (\<lambda>m. title (marker_content m)) (markers doc)
                     = map (details_name w FOOD) (rank_food all_places)))"
proof -
  have a: "fetch_data_and_process_images w lat lng FOOD sub_type budget
           = Some (case place_infos w FOOD lat lng (rank_food all_places) of
                     Inl e \<Rightarrow> Inl e
                   | Inr processed \<Rightarrow> Inr (map (with_uploaded_image w) processed))"
    using places_key_set [OF v] c by (rule food_fetch)
  have b: "\<forall>a \<in> set (rank_food all_places).
             a \<in> set all_places \<and>
             (\<forall>b \<in># mset all_places - mset (rank_food all_places).
                nearby_rating b \<le> nearby_rating a)"
    using rank_food_subset [of all_places] rank_food_best [of all_places] by blast
  have e: "\<exists>doc. executor_lambda_handler w amb amb_end s3 event
                      = Some (completed_response job_id,
                              s3(job_key job_id \<mapsto>
                                 completed_object job_id (utc_now amb_end) doc))
                 \<and> length (markers doc) = FOOD_MAX_RESULTS
                 \<and> map (\<lambda>m. title (marker_content m)) (markers doc)
                     = map (details_name w FOOD) (rank_food all_places)"
    if "FOOD_MAX_RESULTS \<le> length all_places
            \<and> (\<forall>c \<in> set all_places. details_ok w FOOD c) \<and> summaries_ok w"
    unfolding job_id_def
    using that
    by (intro food_job_completed [OF v r p [unfolded job_id_def] c [unfolded sub_type_def budget_def]])
      simp_all
  from a b e rank_food_sorted [of all_places] rank_food_length [of all_places]
  show ?thesis
    by (simp add: rank_food_def FOOD_MAX_RESULTS_def)
qed

lemma food_world_fields:
  "nearby_search food_world params
   = Inr \<lparr> pg_status = ascii ''OK'', pg_error_message = None,
           pg_results = twelve_diners, pg_next_page_token = None \<rparr>"
  "place_details food_world place_id field_list
   = Inr \<lparr> dr_status = ascii ''OK'', dr_error_message = None,
           dr_result = sample_details place_id 4 [] \<rparr>"
  "gemini_summary_text food_world is_food places_data = Inr summaries_json"
  "json_loads_summaries food_world summaries_json = Inr [(ascii ''p07'', ascii ''tasty'')]"
  "put_object food_world s3_key obj = None"
  by (simp_all add: food_world_def base_world_def)

lemma food_world_valid: "fst (validate food_world)"
  using base_world_valid by (simp add: validate_def food_world_def)

lemma food_request_valid: "request_of food_request centre_lat centre_lng FOOD"
  by (simp add: request_of_def food_request_def centre_lat_def centre_lng_def FOOD_def)

lemma food_collected:
  "collect_pages food_world params (Some FOOD_MAX_RESULTS) [] None = Some (Inr twelve_diners)"
  by (subst collect_pages.simps)
    (simp add: food_world_fields truthy_str_def OK_def FOOD_MAX_RESULTS_def twelve_diners_def)

lemma twelve_diners_details: "\<forall>c \<in> set twelve_diners. details_ok food_world FOOD c"
  by (simp add: twelve_diners_def diner_def details_ok_def food_world_fields truthy_str_def
      OK_def ascii_nonempty)

lemma summaries_json_plain: "strip_code_fence (strip summaries_json) = summaries_json"
  unfolding summaries_json_def by (simp only: strip_bracketed strip_code_fence_bracketed)

lemma food_world_summaries: "summaries_ok food_world"
  by (simp add: summaries_ok_def food_world_fields summaries_json_plain)

lemma twelve_diners_ranked:
  "rank_food twelve_diners
   = [diner ''p07'' (49 / 10), diner ''p03'' (24 / 5), diner ''p09'' (47 / 10),
      diner ''p11'' (23 / 5), diner ''p05'' (9 / 2)]"
proof -
  have r: "nearby_rating (diner place_id r) = r" for place_id r
    by (simp add: nearby_rating_def diner_def)
  show ?thesis
    by (simp add: rank_food_def sorted_reverse_def twelve_diners_def FOOD_MAX_RESULTS_def r)
qed

lemma diner_details_name: "details_name food_world FOOD (diner place_id r) = ascii place_id"
  by (simp add: details_name_def food_world_fields diner_def get_str_simps sample_details_def)

text \<open>
  Claim C5 at a provider that returns one page of 12 candidates with distinct ratings: the
  five markers are those of the ratings 4.9, 4.8, 4.7, 4.6 and 4.5, in this order.
\<close>

theorem C5_food_ranking_witness:
  "\<exists>doc. executor_lambda_handler food_world sample_ambient other_ambient Map.empty food_request
           = Some (completed_response (ascii ''job_1''),
                   [job_key (ascii ''job_1'') \<mapsto>
                      completed_object (ascii ''job_1'') (utc_now other_ambient) doc])
     \<and> length (markers doc) = 5
     \<and> map (\<lambda>m. title (marker_content m)) (markers doc)
         = [ascii ''p07'', ascii ''p03'', ascii ''p09'', ascii ''p11'', ascii ''p05'']"
proof -
  have j: "get_str (ev_job_id food_request) (ascii ''unknown'') = ascii ''job_1''"
    by (simp add: food_request_def get_str_simps)
  have acc: "storage_accepts food_world (get_str (ev_job_id food_request) (ascii ''unknown''))"
    by (simp add: storage_accepts_def food_world_fields)
  note inst = C5_food_ranking [OF food_world_valid food_request_valid acc food_collected,
      of sample_ambient other_ambient Map.empty]
  have enough: "FOOD_MAX_RESULTS \<le> length twelve_diners"
    by (simp add: FOOD_MAX_RESULTS_def twelve_diners_def)
  from inst enough twelve_diners_details food_world_summaries
  obtain doc where
    "executor_lambda_handler food_world sample_ambient other_ambient Map.empty food_request
       = Some (completed_response (get_str (ev_job_id food_request) (ascii ''unknown'')),
               [job_key (get_str (ev_job_id food_request) (ascii ''unknown'')) \<mapsto>
                  completed_object (get_str (ev_job_id food_request) (ascii ''unknown''))
                    (utc_now other_ambient) doc])"
    and "length (markers doc) = FOOD_MAX_RESULTS"
    and "map (\<lambda>m. title (marker_content m)) (markers doc)
         = map (details_name food_world FOOD) (rank_food twelve_diners)"
    by blast
  then show ?thesis
    unfolding j twelve_diners_ranked list.map diner_details_name FOOD_MAX_RESULTS_def
    by - (rule exI [where x = doc], intro conjI, assumption+)
qed

subsection \<open>Coordinates in the three sample runs\<close>

lemma sights_json_plain:
  "sights_json \<noteq> []" "strip sights_json = sights_json"
  "strip_code_fence sights_json = sights_json"
  unfolding sights_json_def
  by (simp_all only: strip_bracketed strip_code_fence_bracketed list.distinct not_False_eq_True)

lemma sights_world_fields:
  "GOOGLE_PLACES_API_KEY sights_world = ascii ''places-key''"
  "S3_BUCKET_NAME sights_world = ascii ''bucket''"
  "gemini_search_text sights_world lat lng mt = Inr (Some sights_json)"
  "json_loads_places sights_world sights_json = Inr sights_items"
  "text_search sights_world = sights_search"
  "place_details sights_world = sights_details"
  "unix_time sights_world = unix_time tower_world"
  by (simp_all add: sights_world_def tower_world_def base_world_def)

lemma sights_found:
  "fetch_places_via_gemini sights_world centre_lat centre_lng ATTRACTIONS = Inr sights_candidates"
  by (simp add: fetch_places_via_gemini_def sights_world_fields response_text_of_def
      truthy_str_def get_str_simps sights_json_plain Let_def gemini_item_to_place_def
      sights_items_def sight_item_def sights_candidates_def sight_candidate_def
      ATTRACTIONS_def EVENTS_def ascii_nonempty)

lemma sights_place_ids:
  "find_place_by_name_and_address sights_world (ascii ''Old Tower'') (ascii ''Ueno'') lat lng = None"
  "find_place_by_name_and_address sights_world (ascii ''Castle'') (ascii ''Hill 1'') lat lng
     = Some (ascii ''castle'')"
  "find_place_by_name_and_address sights_world (ascii ''Garden'') [] lat lng
     = Some (ascii ''garden'')"
  "find_place_by_name_and_address sights_world (ascii ''Bridge'') (ascii ''River 2'') lat lng
     = Some (ascii ''bridge'')"
  "find_place_by_name_and_address sights_world (ascii ''Shrine'') (ascii ''Wood 3'') lat lng
     = Some (ascii ''shrine'')"
  by (simp_all add: find_place_by_name_and_address_def sights_world_fields sights_search_def
      OK_def ascii_def)

lemma sights_records:
  "sights_details (ascii ''castle'') field_list
   = Inr \<lparr> dr_status = OK, dr_error_message = None,
           dr_result = (sample_details (ascii ''castle'') 4 [])
                         \<lparr> d_location := Some (Some (143 / 4), Some (559 / 4)) \<rparr> \<rparr>"
  "sights_details (ascii ''garden'') field_list
   = Inr \<lparr> dr_status = OK, dr_error_message = None,
           dr_result = (sample_details (ascii ''garden'') 4 []) \<lparr> d_location := None \<rparr> \<rparr>"
  "sights_details (ascii ''bridge'') field_list
   = Inr \<lparr> dr_status = OK, dr_error_message = None,
           dr_result = (sample_details (ascii ''bridge'') 4 [])
                         \<lparr> d_location := Some (Some (143 / 4), None) \<rparr> \<rparr>"
  "sights_details (ascii ''shrine'') field_list
   = Inr \<lparr> dr_status = ascii ''NOT_FOUND'', dr_error_message = None,
           dr_result = (sample_details (ascii ''shrine'') 4 [])
                         \<lparr> d_location := Some (Some (143 / 4), Some (559 / 4)) \<rparr> \<rparr>"
  by (simp_all add: sights_details_def sights_location_def OK_def ascii_def)

lemma not_found_status: "ascii ''NOT_FOUND'' \<noteq> OK"
  by (simp add: OK_def ascii_def)

lemma sights_run:
  "fetch_data_and_process_images sights_world centre_lat centre_lng ATTRACTIONS [] []
   = Some (Inr sights_output)"
proof -
  have ne: "ATTRACTIONS \<noteq> EVENTS" "ATTRACTIONS \<noteq> []"
    by (simp_all add: ATTRACTIONS_def EVENTS_def)
  have infos: "attraction_place_infos sights_world centre_lat centre_lng sights_candidates
               = Inr sights_output"
    by (simp add: sights_candidates_def sight_candidate_def sights_place_ids
        sights_world_fields sights_records not_found_status truthy_str_def get_str_simps
        cons_result_def Let_def sights_output_def tower_output_def found_sight_def
        gemini_place_id_def sample_details_def website_of_def attraction_image_urls_def
        ascii_nonempty)
  have all: "sights_candidates \<noteq> []"
    "take ATTRACTION_MAX_RESULTS sights_candidates = sights_candidates"
    by (simp_all add: sights_candidates_def ATTRACTION_MAX_RESULTS_def)
  show ?thesis
    by (simp add: fetch_data_and_process_images_def
        fetch_places_via_gemini_and_process_images_def sights_found sights_world_fields
        ascii_nonempty ne all infos Let_def)
qed

lemma events_full_run:
  "fetch_data_and_process_images events_world centre_lat centre_lng EVENTS [] []
   = Some (Inr events_output)"
  by (simp add: fetch_data_and_process_images_def events_run)

lemma geometry_world_fields:
  "GOOGLE_PLACES_API_KEY geometry_world = ascii ''places-key''"
  "S3_BUCKET_NAME geometry_world = ascii ''bucket''"
  "nearby_search geometry_world params
   = Inr \<lparr> pg_status = ascii ''OK'', pg_error_message = None,
           pg_results = twelve_diners, pg_next_page_token = None \<rparr>"
  "place_details geometry_world place_id field_list
   = Inr \<lparr> dr_status = OK, dr_error_message = None,
           dr_result = (sample_details place_id 4 [])
                         \<lparr> d_location := diner_location place_id \<rparr> \<rparr>"
  by (simp_all add: geometry_world_def food_world_def base_world_def OK_def)

lemma geometry_collected:
  "collect_pages geometry_world params (Some FOOD_MAX_RESULTS) [] None = Some (Inr twelve_diners)"
  by (subst collect_pages.simps)
    (simp add: geometry_world_fields truthy_str_def OK_def FOOD_MAX_RESULTS_def twelve_diners_def)

lemma geometry_ranked_infos:
  "place_infos geometry_world FOOD centre_lat centre_lng (rank_food twelve_diners)
   = Inr geometry_output"
  by (simp add: twelve_diners_ranked diner_def truthy_str_def get_str_simps
      geometry_world_fields cons_result_def ascii_nonempty geometry_output_def)

lemma geometry_run:
  "fetch_data_and_process_images geometry_world centre_lat centre_lng FOOD [] []
   = Some (Inr geometry_output)"
proof -
  have k: "GOOGLE_PLACES_API_KEY geometry_world \<noteq> []"
    by (simp add: geometry_world_fields ascii_nonempty)
  show ?thesis
    unfolding food_fetch [OF k geometry_collected] geometry_ranked_infos
    by (simp add: geometry_output_def with_uploaded_image_def place_info_of_details_def
        sample_details_def truthy_str_def)
qed

lemma diner_locations:
  "diner_location (ascii ''p07'') = Some (Some (143 / 4), Some (559 / 4))"
  "diner_location (ascii ''p03'') = None"
  "diner_location (ascii ''p09'') = Some (None, Some (559 / 4))"
  "diner_location (ascii ''p11'') = Some (Some (143 / 4), Some (559 / 4))"
  "diner_location (ascii ''p05'') = Some (Some (143 / 4), Some (559 / 4))"
  by (simp_all add: diner_location_def ascii_def)

text \<open>
  Claim C7, amended, at one run of each category. Five events: coordinates supplied,
  geocoded, and the search centre after a failed geocoding or without an address. Five
  attractions: none found by the text search (the search centre), a record with a location
  (its coordinates), a record without a location (the search centre), a record whose location
  has no longitude (the latitude alone), and a record answered with another status (left
  out). Five diners of the structured search: records with a location, one without (the
  search centre) and one whose location has no latitude.
\<close>

theorem C7_coordinates_resolved_witness:
  "list_all has_coordinates events_output
   \<and> map coordinates_of events_output
       = [(Some centre_lat, Some centre_lng), (Some (71 / 2), Some (279 / 2)),
          (Some (143 / 4), Some (559 / 4)), (Some centre_lat, Some centre_lng),
          (Some (143 / 4), Some (559 / 4))]
   \<and> map coordinates_of sights_output
       = [(Some centre_lat, Some centre_lng), (Some (143 / 4), Some (559 / 4)),
          (Some centre_lat, Some centre_lng), (Some (143 / 4), None)]
   \<and> record_lacks_number sights_world ATTRACTION_FIELDS (sights_output ! 3)
   \<and> list_all (from_record geometry_world (details_fields FOOD) centre_lat centre_lng)
        geometry_output
   \<and> map coordinates_of geometry_output
       = [(Some (143 / 4), Some (559 / 4)), (Some centre_lat, Some centre_lng),
          (None, Some (559 / 4)), (Some (143 / 4), Some (559 / 4)),
          (Some (143 / 4), Some (559 / 4))]
   \<and> record_lacks_number geometry_world (details_fields FOOD) (geometry_output ! 2)"
proof -
  note ev = C7_coordinates_resolved [OF events_full_run]
  note at = C7_coordinates_resolved [OF sights_run]
  note fd = C7_coordinates_resolved [OF geometry_run]
  have ne: "FOOD \<noteq> EVENTS" "FOOD \<noteq> ATTRACTIONS"
    by (simp_all add: FOOD_def EVENTS_def ATTRACTIONS_def)
  from ev have a: "\<forall>pl \<in> set events_output. has_coordinates pl" by blast
  have g: "geocode_address events_world (ascii ''Ueno'') = Some (143 / 4, 559 / 4)"
    "geocode_address events_world (ascii ''Nowhere 9'') = None"
    "geocode_address events_world [] = None"
    by (simp_all add: geocode_address_def events_world_fields ueno_geocoder_def OK_def
        ascii_nonempty) (simp add: ascii_def)
  have b: "map coordinates_of events_output
       = [(Some centre_lat, Some centre_lng), (Some (71 / 2), Some (279 / 2)),
          (Some (143 / 4), Some (559 / 4)), (Some centre_lat, Some centre_lng),
          (Some (143 / 4), Some (559 / 4))]"
    by (simp add: events_output_def events_ranked_candidates_def event_place_info_chain
        flag_flea_market_def event_candidate_def supplied_coordinates_def coordinates_of_def
        spec_coordinate_chain_def g ascii_nonempty)
  from at sights_found have "map coordinates_of sights_output
      = List.map_filter (attraction_coordinates sights_world centre_lat centre_lng)
          (take ATTRACTION_MAX_RESULTS sights_candidates)"
    by auto
  then have c: "map coordinates_of sights_output
       = [(Some centre_lat, Some centre_lng), (Some (143 / 4), Some (559 / 4)),
          (Some centre_lat, Some centre_lng), (Some (143 / 4), None)]"
    by (simp add: sights_candidates_def sight_candidate_def ATTRACTION_MAX_RESULTS_def
        map_filter_simps attraction_coordinates_def sights_place_ids sights_world_fields
        sights_records not_found_status record_coordinates_def ascii_nonempty)
  have "\<not> has_coordinates (sights_output ! 3)"
    by (simp add: sights_output_def found_sight_def has_coordinates_def)
  moreover have "sights_output ! 3 \<in> set sights_output"
    by (simp add: sights_output_def)
  ultimately have d: "record_lacks_number sights_world ATTRACTION_FIELDS (sights_output ! 3)"
    using at by blast
  from fd ne have e: "\<forall>pl \<in> set geometry_output.
      from_record geometry_world (details_fields FOOD) centre_lat centre_lng pl"
    by blast
  have f: "map coordinates_of geometry_output
       = [(Some (143 / 4), Some (559 / 4)), (Some centre_lat, Some centre_lng),
          (None, Some (559 / 4)), (Some (143 / 4), Some (559 / 4)),
          (Some (143 / 4), Some (559 / 4))]"
    by (simp add: geometry_output_def place_info_of_details_def coordinates_of_def
        diner_locations)
  have "\<not> has_coordinates (geometry_output ! 2)"
    by (simp add: geometry_output_def place_info_of_details_def has_coordinates_def
        diner_locations)
  moreover have "geometry_output ! 2 \<in> set geometry_output"
    by (simp add: geometry_output_def)
  ultimately have h: "record_lacks_number geometry_world (details_fields FOOD) (geometry_output ! 2)"
    using fd ne by blast
  from a b c d e f h show ?thesis by (simp only: list_all_iff)
qed

subsection \<open>The status query\<close>

text \<open>
  Claim C8. For every job identifier whose record is absent from durable storage, the status
  query answers 200 with the status "processing" and a suggested retry delay of 5 seconds,
  and no error. The query is one of a configured deployment (a bucket name is set) that
  carries the identifier, and the storage service answers the read.
\<close>

theorem C8_absent_record_is_processing:
  assumes "extract_job_id cw event = Inr (Some job_id)" and "job_id \<noteq> []"
    and "cw_S3_BUCKET_NAME cw \<noteq> []"
    and "cw_request_failure cw (job_key job_id) = None"
    and "cw_objects cw (job_key job_id) = None"
  shows "checker_lambda_handler cw event
         = \<lparr> cr_statusCode = 200, cr_body = ProcessingBody job_id PROCESSING_MESSAGE 5 \<rparr>"
  using assms
  by (simp add: checker_lambda_handler_def check_job_def get_object_def truthy_str_def get_str_def)

text \<open>
  Claim C8 at the identifier "job_42", given as a path parameter, with nothing stored.
\<close>

theorem C8_absent_record_is_processing_witness:
  "checker_lambda_handler polling_world polling_event
   = \<lparr> cr_statusCode = 200, cr_body = ProcessingBody (ascii ''job_42'') PROCESSING_MESSAGE 5 \<rparr>"
proof -
  have "extract_job_id polling_world polling_event = Inr (Some (ascii ''job_42''))"
    by (simp add: extract_job_id_def polling_event_def job_id_of_params_def str_or_def
        truthy_str_def ascii_def)
  moreover have "ascii ''job_42'' \<noteq> []" by (simp add: ascii_def)
  moreover have "cw_S3_BUCKET_NAME polling_world \<noteq> []"
    by (simp add: polling_world_def ascii_def)
  moreover have "cw_request_failure polling_world (job_key (ascii ''job_42'')) = None"
    "cw_objects polling_world (job_key (ascii ''job_42'')) = None"
    by (simp_all add: polling_world_def)
  ultimately show ?thesis by (rule C8_absent_record_is_processing)
qed

end
